theory Spec2Isabelle
  imports Complex_Main
begin

section \<open>Text and numbers of the host language\<close>

text \<open>
  A JavaScript string is a sequence of UTF-16 code units. The en dash (U+2013) that
  the scraper compares against does not fit a byte, so text is a list of code-unit
  numbers; \<open>js\<close> lifts an ASCII literal.
\<close>

type_synonym jsstr = "nat list"

definition js :: "string \<Rightarrow> jsstr" where
  "js s = map of_char s"

text \<open>The class \<^verbatim>\<open>\s\<close> of a regular expression, which is also what \<^verbatim>\<open>trim\<close> and
  \<^verbatim>\<open>Number\<close> strip: white space and line terminators.\<close>

definition isWhiteSpace :: "nat \<Rightarrow> bool" where
  "isWhiteSpace c \<longleftrightarrow>
     c = 9 \<or> c = 10 \<or> c = 11 \<or> c = 12 \<or> c = 13 \<or> c = 32 \<or> c = 160 \<or> c = 5760 \<or>
     (8192 \<le> c \<and> c \<le> 8202) \<or> c = 8232 \<or> c = 8233 \<or> c = 8239 \<or> c = 8287 \<or>
     c = 12288 \<or> c = 65279"

text \<open>The class \<^verbatim>\<open>\d\<close> (without the unicode flag): the ASCII digits.\<close>

definition isDigit :: "nat \<Rightarrow> bool" where
  "isDigit c \<longleftrightarrow> 48 \<le> c \<and> c \<le> 57"

definition trim :: "jsstr \<Rightarrow> jsstr" where
  "trim s = rev (dropWhile isWhiteSpace (rev (dropWhile isWhiteSpace s)))"

definition startsWith :: "jsstr \<Rightarrow> jsstr \<Rightarrow> bool" where
  "startsWith s p \<longleftrightarrow> take (length p) s = p"

text \<open>
  A number. Finite numbers are exact rationals: the rounding of IEEE doubles,
  overflow to infinity and the sign of zero are not modelled.
\<close>

datatype jsnum = NaN | NegInf | Fin rat | PosInf

definition digitsVal :: "jsstr \<Rightarrow> nat" where
  "digitsVal ds = foldl (\<lambda>a c. 10 * a + (c - 48)) 0 ds"

definition hexDigitVal :: "nat \<Rightarrow> nat option" where
  "hexDigitVal c =
     (if 48 \<le> c \<and> c \<le> 57 then Some (c - 48)
      else if 97 \<le> c \<and> c \<le> 102 then Some (c - 87)
      else if 65 \<le> c \<and> c \<le> 70 then Some (c - 55)
      else None)"

fun radixVal :: "nat \<Rightarrow> nat \<Rightarrow> jsstr \<Rightarrow> nat option" where
  "radixVal b a [] = Some a"
| "radixVal b a (c # cs) =
     (case hexDigitVal c of
        None \<Rightarrow> None
      | Some d \<Rightarrow> if d < b then radixVal b (b * a + d) cs else None)"

text \<open>\<^verbatim>\<open>0x\<close>, \<^verbatim>\<open>0o\<close> and \<^verbatim>\<open>0b\<close> literals, which take no sign.\<close>

definition nonDecimalLiteral :: "jsstr \<Rightarrow> nat option" where
  "nonDecimalLiteral s =
     (case s of
        c0 # c1 # ds \<Rightarrow>
          if c0 = 48 \<and> ds \<noteq> [] then
            (if c1 = 120 \<or> c1 = 88 then radixVal 16 0 ds
             else if c1 = 111 \<or> c1 = 79 then radixVal 8 0 ds
             else if c1 = 98 \<or> c1 = 66 then radixVal 2 0 ds
             else None)
          else None
      | _ \<Rightarrow> None)"

text \<open>The exponent part of a decimal literal: nothing, or \<^verbatim>\<open>e\<close>/\<^verbatim>\<open>E\<close>, an optional
  sign and at least one digit.\<close>

definition exponentPart :: "jsstr \<Rightarrow> int option" where
  "exponentPart s =
     (case s of
        [] \<Rightarrow> Some 0
      | c # r \<Rightarrow>
          if c = 101 \<or> c = 69 then
            (case r of
               [] \<Rightarrow> None
             | d # r' \<Rightarrow>
                 if d = 43 then (if r' \<noteq> [] \<and> list_all isDigit r' then Some (int (digitsVal r')) else None)
                 else if d = 45 then (if r' \<noteq> [] \<and> list_all isDigit r' then Some (- int (digitsVal r')) else None)
                 else if list_all isDigit r then Some (int (digitsVal r)) else None)
          else None)"

definition scale10 :: "rat \<Rightarrow> int \<Rightarrow> rat" where
  "scale10 q e = (if 0 \<le> e then q * 10 ^ nat e else q / 10 ^ nat (- e))"

definition strUnsignedDecimalLiteral :: "jsstr \<Rightarrow> jsnum" where
  "strUnsignedDecimalLiteral s =
     (if s = js ''Infinity'' then PosInf
      else
        let ip = takeWhile isDigit s;
            r1 = dropWhile isDigit s;
            hasDot = (case r1 of [] \<Rightarrow> False | c # _ \<Rightarrow> c = 46);
            fp = (if hasDot then takeWhile isDigit (tl r1) else []);
            r2 = (if hasDot then dropWhile isDigit (tl r1) else r1)
        in if ip = [] \<and> fp = [] then NaN
           else (case exponentPart r2 of
                   None \<Rightarrow> NaN
                 | Some e \<Rightarrow> Fin (scale10 (of_nat (digitsVal (ip @ fp)) / 10 ^ length fp) e)))"

definition negate :: "jsnum \<Rightarrow> jsnum" where
  "negate x =
     (case x of NaN \<Rightarrow> NaN | NegInf \<Rightarrow> PosInf | Fin q \<Rightarrow> Fin (- q) | PosInf \<Rightarrow> NegInf)"

text \<open>\<^verbatim>\<open>Number(s)\<close> on a string. The empty (or all-blank) string is 0.\<close>

definition Number :: "jsstr \<Rightarrow> jsnum" where
  "Number s =
     (let t = trim s in
      if t = [] then Fin 0
      else (case nonDecimalLiteral t of
              Some n \<Rightarrow> Fin (of_nat n)
            | None \<Rightarrow>
                (case t of
                   [] \<Rightarrow> NaN
                 | c # r \<Rightarrow>
                     if c = 43 then strUnsignedDecimalLiteral r
                     else if c = 45 then negate (strUnsignedDecimalLiteral r)
                     else strUnsignedDecimalLiteral t)))"

section \<open>Number/Value Normalizer\<close>

text \<open>\<^verbatim>\<open>replace(/[\,\s]/g, "")\<close>: every comma and every white-space unit is removed.\<close>

definition stripSeparators :: "jsstr \<Rightarrow> jsstr" where
  "stripSeparators s = filter (\<lambda>c. \<not> (c = 44 \<or> isWhiteSpace c)) s"

text \<open>The argument is a string or null/undefined (\<open>None\<close>); the result is a number or
  null (\<open>None\<close>).\<close>

definition normalizeNumber :: "jsstr option \<Rightarrow> jsnum option" where
  "normalizeNumber text =
     (case text of
        None \<Rightarrow> None
      | Some t \<Rightarrow>
          if t = [] then None
          else
            let cleaned = trim (stripSeparators t) in
            if cleaned = [] \<or> cleaned = [8211] \<or> cleaned = [45] then None
            else
              let num = Number cleaned in
              if num = NaN then None else Some num)"

definition EPSILON :: rat where
  "EPSILON = 1 / 2 ^ 52"

text \<open>\<^verbatim>\<open>Math.round\<close>: the nearest integer, an exact half going towards plus infinity.\<close>

definition mathRound :: "jsnum \<Rightarrow> jsnum" where
  "mathRound x = (case x of Fin q \<Rightarrow> Fin (of_int \<lfloor>q + 1 / 2\<rfloor>) | _ \<Rightarrow> x)"

definition addFin :: "jsnum \<Rightarrow> rat \<Rightarrow> jsnum" where
  "addFin x e = (case x of Fin q \<Rightarrow> Fin (q + e) | _ \<Rightarrow> x)"

text \<open>Multiplication and division by a positive finite factor.\<close>

definition mulPos :: "jsnum \<Rightarrow> rat \<Rightarrow> jsnum" where
  "mulPos x f = (case x of Fin q \<Rightarrow> Fin (q * f) | _ \<Rightarrow> x)"

definition divPos :: "jsnum \<Rightarrow> rat \<Rightarrow> jsnum" where
  "divPos x f = (case x of Fin q \<Rightarrow> Fin (q / f) | _ \<Rightarrow> x)"

definition roundTo :: "jsnum option \<Rightarrow> nat \<Rightarrow> jsnum option" where
  "roundTo v decimals =
     (case v of
        None \<Rightarrow> None
      | Some x \<Rightarrow>
          let factor = 10 ^ decimals
          in Some (divPos (mathRound (mulPos (addFin x EPSILON) factor)) factor))"


section \<open>Regular expressions\<close>

text \<open>
  The patterns of the program are sequences of single-character classes, each with a
  greedy repetition range; a capture group, where there is one, wraps exactly one such
  item. \<open>Item cls lo hi cap\<close> matches between \<open>lo\<close> and \<open>hi\<close> (unbounded for
  \<open>None\<close>) units of class \<open>cls\<close> and is captured when \<open>cap\<close>.

  \<open>matchFrom its k acc s\<close> is the backtracking match of the items \<open>its\<close> against a
  prefix of \<open>s\<close> when the first item has already taken the \<open>k\<close> units \<open>acc\<close>: it
  first tries to take one more unit (greedy), and when the rest then fails it stops
  here, provided \<open>lo\<close> units were taken. \<open>search\<close> tries the positions from the
  left, as \<^verbatim>\<open>String.prototype.match\<close> does. The result is the list of captured groups.
\<close>

datatype item = Item "nat \<Rightarrow> bool" nat "nat option" bool

fun matchFrom :: "item list \<Rightarrow> nat \<Rightarrow> jsstr \<Rightarrow> jsstr \<Rightarrow> jsstr list option" where
  "matchFrom [] k acc s = Some []"
| "matchFrom (Item cls lo hi cap # its) k acc s =
     (case (case s of
              [] \<Rightarrow> None
            | c # cs \<Rightarrow>
                if cls c \<and> (case hi of None \<Rightarrow> True | Some h \<Rightarrow> k < h)
                then matchFrom (Item cls lo hi cap # its) (Suc k) (acc @ [c]) cs
                else None) of
        Some caps \<Rightarrow> Some caps
      | None \<Rightarrow>
          if lo \<le> k
          then map_option (\<lambda>caps. if cap then acc # caps else caps) (matchFrom its 0 [] s)
          else None)"

definition matchHere :: "item list \<Rightarrow> jsstr \<Rightarrow> jsstr list option" where
  "matchHere its s = matchFrom its 0 [] s"

fun search :: "item list \<Rightarrow> jsstr \<Rightarrow> jsstr list option" where
  "search its [] = matchHere its []"
| "search its (c # cs) =
     (case matchHere its (c # cs) of Some caps \<Rightarrow> Some caps | None \<Rightarrow> search its cs)"

definition test :: "item list \<Rightarrow> jsstr \<Rightarrow> bool" where
  "test its s \<longleftrightarrow> search its s \<noteq> None"

definition upperAscii :: "nat \<Rightarrow> nat" where
  "upperAscii c = (if 97 \<le> c \<and> c \<le> 122 then c - 32 else c)"

text \<open>A literal, and a literal under the flag \<^verbatim>\<open>i\<close>: for an ASCII pattern character the
  case-insensitive match accepts exactly its two ASCII cases.\<close>

definition lit :: "string \<Rightarrow> item list" where
  "lit s = map (\<lambda>ch. Item (\<lambda>c. c = of_char ch) 1 (Some 1) False) s"

definition liti :: "string \<Rightarrow> item list" where
  "liti s = map (\<lambda>ch. Item (\<lambda>c. upperAscii c = upperAscii (of_char ch)) 1 (Some 1) False) s"

definition isDash :: "nat \<Rightarrow> bool" where
  "isDash c \<longleftrightarrow> c = 45 \<or> c = 8211"

section \<open>Values and objects\<close>

text \<open>The values a record field holds: null, a number, or text. An object is the
  list of its properties in insertion order, with distinct keys.\<close>

datatype jsval = Null | Num jsnum | Str jsstr

type_synonym obj = "(string \<times> jsval) list"

definition getProp :: "obj \<Rightarrow> string \<Rightarrow> jsval option" where
  "getProp ob k = map_of ob k"

fun setProp :: "string \<Rightarrow> jsval \<Rightarrow> obj \<Rightarrow> obj" where
  "setProp k v [] = [(k, v)]"
| "setProp k v ((k', v') # ps) =
     (if k = k' then (k, v) # ps else (k', v') # setProp k v ps)"

text \<open>\<^verbatim>\<open>Object.assign(target, source)\<close>: every property of the source is set on the
  target, in the source's order.\<close>

definition objectAssign :: "obj \<Rightarrow> obj \<Rightarrow> obj" where
  "objectAssign target source = foldl (\<lambda>t (k, v). setProp k v t) target source"

definition numOrNull :: "jsnum option \<Rightarrow> jsval" where
  "numOrNull x = (case x of None \<Rightarrow> Null | Some n \<Rightarrow> Num n)"

definition strOrNull :: "jsstr \<Rightarrow> jsval" where
  "strOrNull s = (if s \<noteq> [] then Str s else Null)"

section \<open>Listing Page Extractor\<close>

text \<open>
  What the selectors of \<^verbatim>\<open>extractGamesFromHtml\<close> read in one table row: the number of
  its cells, and the attributes and text of the cells it looks at. An attribute that
  is not there is \<open>None\<close>; the text of an element that is not there is empty.
\<close>

record row =
  tdCount :: nat
  rankSort :: "jsstr option"
  rankCellText :: jsstr
  imgSrc :: "jsstr option"
  imgDataSrc :: "jsstr option"
  titleAnchorText :: jsstr
  titleCellText :: jsstr
  titleHref :: "jsstr option"
  grSort :: "jsstr option"
  grText :: jsstr
  arSort :: "jsstr option"
  arText :: jsstr
  nvSort :: "jsstr option"
  nvText :: jsstr

text \<open>\<^verbatim>\<open>a || b\<close> for an attribute and a fallback text.\<close>

definition orElse :: "jsstr option \<Rightarrow> jsstr \<Rightarrow> jsstr" where
  "orElse a b = (case a of None \<Rightarrow> b | Some s \<Rightarrow> if s \<noteq> [] then s else b)"

text \<open>The image cell: \<^verbatim>\<open>src\<close>, else \<^verbatim>\<open>data-src\<close>, else empty; a protocol-relative
  reference gets \<^verbatim>\<open>https:\<close>; the field is \<^verbatim>\<open>@\<close> and the reference, or null.\<close>

definition imageSource :: "row \<Rightarrow> jsstr" where
  "imageSource r =
     (let imgSrc0 = orElse (imgSrc r) (orElse (imgDataSrc r) [])
      in if imgSrc0 \<noteq> [] \<and> startsWith imgSrc0 (js ''//'') then js ''https:'' @ imgSrc0
         else imgSrc0)"

definition imageField :: "row \<Rightarrow> jsval" where
  "imageField r = (let s = imageSource r in if s \<noteq> [] then Str (64 # s) else Null)"

text \<open>\<^verbatim>\<open>cellText.match(/\((\d{4})\)/)\<close>\<close>

definition yearPattern :: "item list" where
  "yearPattern = lit ''('' @ [Item isDigit 4 (Some 4) True] @ lit '')''"

definition yearField :: "row \<Rightarrow> jsnum option" where
  "yearField r =
     (case search yearPattern (titleCellText r) of
        Some (y # _) \<Rightarrow> normalizeNumber (Some y)
      | _ \<Rightarrow> None)"

text \<open>
  \<^verbatim>\<open>new URL(href, base).toString()\<close> belongs to the platform: \<open>resolve href base\<close> is
  its result, \<open>None\<close> when the constructor throws.
\<close>

type_synonym resolver = "jsstr \<Rightarrow> jsstr \<Rightarrow> jsstr option"

text \<open>One row of the table. The outer \<open>None\<close> is an exception (from the URL
  constructor); the inner \<open>None\<close> is a row that is skipped.\<close>

definition extractRow :: "resolver \<Rightarrow> row \<Rightarrow> obj option option" where
  "extractRow resolve r =
     (if tdCount r < 6 then Some None
      else
        let rankText = trim (rankCellText r);
            rank = normalizeNumber (Some (orElse (rankSort r) rankText))
        in case rank of
             None \<Rightarrow> Some None
           | Some rk \<Rightarrow>
               let img = imageField r;
                   rawTitle = trim (titleAnchorText r);
                   year = yearField r;
                   title = rawTitle;
                   relativeHref0 = orElse (titleHref r) [];
                   relativeHref =
                     (if relativeHref0 \<noteq> [] \<and> \<not> startsWith relativeHref0 (js ''http'')
                      then resolve relativeHref0 (js ''https://boardgamegeek.com'')
                      else Some relativeHref0)
               in (case relativeHref of
                    None \<Rightarrow> None
                  | Some href \<Rightarrow>
                      let geekRatingRaw = normalizeNumber (Some (orElse (grSort r) (grText r)));
                          avgRatingRaw = normalizeNumber (Some (orElse (arSort r) (arText r)));
                          numVotersRaw = normalizeNumber (Some (orElse (nvSort r) (nvText r)));
                          geekRating =
                            (case geekRatingRaw of None \<Rightarrow> None | Some _ \<Rightarrow> roundTo geekRatingRaw 3);
                          avgRating =
                            (case avgRatingRaw of None \<Rightarrow> None | Some _ \<Rightarrow> roundTo avgRatingRaw 2);
                          numVoters =
                            (case numVotersRaw of None \<Rightarrow> None | Some n \<Rightarrow> Some (mathRound n))
                      in Some (Some
                           [(''rank'', Num rk),
                            (''title'', Str title),
                            (''year'', numOrNull year),
                            (''image'', img),
                            (''url'', strOrNull href),
                            (''geek_rating'', numOrNull geekRating),
                            (''avg_rating'', numOrNull avgRating),
                            (''num_voters'', numOrNull numVoters)])))"

fun extractRows :: "resolver \<Rightarrow> row list \<Rightarrow> obj list option" where
  "extractRows resolve [] = Some []"
| "extractRows resolve (r # rs) =
     (case extractRow resolve r of
        None \<Rightarrow> None
      | Some g \<Rightarrow>
          (case extractRows resolve rs of
             None \<Rightarrow> None
           | Some gs \<Rightarrow> Some (case g of None \<Rightarrow> gs | Some ob \<Rightarrow> ob # gs)))"

section \<open>The viewer's image cell\<close>

text \<open>
  \<^verbatim>\<open>renderTableBody\<close> in \<^verbatim>\<open>viewer.js\<close>: for a truthy \<^verbatim>\<open>g.image\<close> the value given to
  \<^verbatim>\<open>img.src\<close>; \<open>None\<close> when no image element is made.
\<close>

definition truthy :: "jsval \<Rightarrow> bool" where
  "truthy v =
     (case v of Null \<Rightarrow> False | Num n \<Rightarrow> n \<noteq> NaN \<and> n \<noteq> Fin 0 | Str s \<Rightarrow> s \<noteq> [])"

definition renderImgSrc :: "jsval option \<Rightarrow> jsval option" where
  "renderImgSrc img =
     (case img of
        None \<Rightarrow> None
      | Some v \<Rightarrow>
          if truthy v then
            (case v of
               Str s \<Rightarrow> Some (if startsWith s (js ''@'') then Str (drop 1 s) else v)
             | _ \<Rightarrow> Some v)
          else None)"

section \<open>JSON values\<close>

text \<open>
  The result of \<^verbatim>\<open>JSON.parse\<close>. A JSON number is finite. The keys the program looks
  up are ASCII, so keys are plain strings. A property that is not there reads as
  \<^verbatim>\<open>undefined\<close>, which is \<open>None\<close> in a \<open>json option\<close>.
\<close>

datatype json =
  JNull | JBool bool | JNum rat | JStr jsstr | JArr "json list" | JObj "(string \<times> json) list"

text \<open>Property access, plain or with \<^verbatim>\<open>?.\<close>: none of the keys the program reads is a
  property of a string, a number, a boolean or an array, and no plain access of the
  program is applied to null or undefined.\<close>

definition getKey :: "json option \<Rightarrow> string \<Rightarrow> json option" where
  "getKey v k = (case v of Some (JObj ps) \<Rightarrow> map_of ps k | _ \<Rightarrow> None)"

definition truthyJ :: "json option \<Rightarrow> bool" where
  "truthyJ v =
     (case v of
        None \<Rightarrow> False
      | Some JNull \<Rightarrow> False
      | Some (JBool b) \<Rightarrow> b
      | Some (JNum q) \<Rightarrow> q \<noteq> 0
      | Some (JStr s) \<Rightarrow> s \<noteq> []
      | Some _ \<Rightarrow> True)"

text \<open>\<^verbatim>\<open>a || b\<close> and \<^verbatim>\<open>a ?? b\<close>\<close>

definition orJ :: "json option \<Rightarrow> json option \<Rightarrow> json option" where
  "orJ a b = (if truthyJ a then a else b)"

definition nullish :: "json option \<Rightarrow> json option \<Rightarrow> json option" where
  "nullish a b = (case a of None \<Rightarrow> b | Some JNull \<Rightarrow> b | _ \<Rightarrow> a)"

fun natDigits :: "nat \<Rightarrow> jsstr" where
  "natDigits n = (if n < 10 then [48 + n] else natDigits (n div 10) @ [48 + n mod 10])"

declare natDigits.simps [simp del]

fun fracDigits :: "nat \<Rightarrow> rat \<Rightarrow> jsstr" where
  "fracDigits 0 r = []"
| "fracDigits (Suc n) r =
     (if r = 0 then []
      else let d = \<lfloor>r * 10\<rfloor> in (48 + nat d) # fracDigits n (r * 10 - of_int d))"

text \<open>
  \<^verbatim>\<open>String(n)\<close> for a finite number, in plain decimal notation. This is what
  JavaScript prints for a number written with at most 15 significant digits whose
  magnitude is zero or between \<open>10\<^sup>-\<^sup>6\<close> and \<open>10\<^sup>2\<^sup>1\<close>.
\<close>

definition numberToString :: "rat \<Rightarrow> jsstr" where
  "numberToString q =
     (let a = \<bar>q\<bar>; ip = \<lfloor>a\<rfloor>; fr = a - of_int ip
      in (if q < 0 then [45] else []) @ natDigits (nat ip) @
         (if fr = 0 then [] else 46 # fracDigits 20 fr))"

fun joinComma :: "jsstr list \<Rightarrow> jsstr" where
  "joinComma [] = []"
| "joinComma [s] = s"
| "joinComma (s # t # ts) = s @ 44 # joinComma (t # ts)"

text \<open>\<^verbatim>\<open>String(v)\<close>; in an array, null prints as the empty string.\<close>

fun toString :: "json \<Rightarrow> jsstr" where
  "toString JNull = js ''null''"
| "toString (JBool b) = (if b then js ''true'' else js ''false'')"
| "toString (JNum q) = numberToString q"
| "toString (JStr s) = s"
| "toString (JArr xs) = joinComma (map (\<lambda>x. if x = JNull then [] else toString x) xs)"
| "toString (JObj ps) = js ''[object Object]''"

text \<open>\<^verbatim>\<open>Math.trunc\<close>\<close>

definition mathTrunc :: "jsnum \<Rightarrow> jsnum" where
  "mathTrunc x =
     (case x of Fin q \<Rightarrow> Fin (of_int (if 0 \<le> q then \<lfloor>q\<rfloor> else \<lceil>q\<rceil>)) | _ \<Rightarrow> x)"

definition coerceInt :: "json option \<Rightarrow> jsnum option" where
  "coerceInt v =
     (case v of
        None \<Rightarrow> None
      | Some JNull \<Rightarrow> None
      | Some j \<Rightarrow>
          let n = Number (stripSeparators (toString j))
          in if n = NaN then None else Some (mathTrunc n))"

definition coerceFloat :: "json option \<Rightarrow> nat option \<Rightarrow> jsnum option" where
  "coerceFloat v decimals =
     (case v of
        None \<Rightarrow> None
      | Some JNull \<Rightarrow> None
      | Some j \<Rightarrow>
          let n = Number (stripSeparators (toString j))
          in if n = NaN then None
             else (case decimals of None \<Rightarrow> Some n | Some d \<Rightarrow> roundTo (Some n) d))"

text \<open>The order of numbers; every comparison with NaN is false.\<close>

definition jsLess :: "jsnum \<Rightarrow> jsnum \<Rightarrow> bool" where
  "jsLess a b =
     (case (a, b) of
        (NaN, _) \<Rightarrow> False
      | (_, NaN) \<Rightarrow> False
      | (NegInf, NegInf) \<Rightarrow> False
      | (NegInf, _) \<Rightarrow> True
      | (Fin x, Fin y) \<Rightarrow> x < y
      | (Fin x, PosInf) \<Rightarrow> True
      | _ \<Rightarrow> False)"

definition jsLe :: "jsnum \<Rightarrow> jsnum \<Rightarrow> bool" where
  "jsLe a b \<longleftrightarrow> a \<noteq> NaN \<and> b \<noteq> NaN \<and> (a = b \<or> jsLess a b)"

text \<open>\<^verbatim>\<open>Math.min\<close> and \<^verbatim>\<open>Math.max\<close> of a list of arguments: NaN if one of them is NaN,
  and plus or minus infinity for no argument.\<close>

definition min2 :: "jsnum \<Rightarrow> jsnum \<Rightarrow> jsnum" where
  "min2 a b = (if a = NaN \<or> b = NaN then NaN else if jsLess b a then b else a)"

definition max2 :: "jsnum \<Rightarrow> jsnum \<Rightarrow> jsnum" where
  "max2 a b = (if a = NaN \<or> b = NaN then NaN else if jsLess a b then b else a)"

definition mathMin :: "jsnum list \<Rightarrow> jsnum" where
  "mathMin xs = foldl min2 PosInf xs"

definition mathMax :: "jsnum list \<Rightarrow> jsnum" where
  "mathMax xs = foldl max2 NegInf xs"

section \<open>Detail Extractor\<close>

text \<open>The object every strategy returns: exactly these seven properties.\<close>

definition detailsObject ::
  "jsnum option \<Rightarrow> jsnum option \<Rightarrow> jsnum option \<Rightarrow> jsnum option \<Rightarrow> jsnum option \<Rightarrow>
   jsnum option \<Rightarrow> jsnum option \<Rightarrow> obj" where
  "detailsObject minPlayers maxPlayers minBest maxBest minPlay maxPlay weight =
     [(''min_players'', numOrNull minPlayers),
      (''max_players'', numOrNull maxPlayers),
      (''min_best_players'', numOrNull minBest),
      (''max_best_players'', numOrNull maxBest),
      (''min_playing_time'', numOrNull minPlay),
      (''max_playing_time'', numOrNull maxPlay),
      (''weight'', numOrNull weight)]"

subsection \<open>Primary: the \<^verbatim>\<open>GEEK.geekitemPreload\<close> object\<close>

definition bestRangeOfRanges :: "json option \<Rightarrow> jsnum option \<times> jsnum option" where
  "bestRangeOfRanges bestRanges =
     (case bestRanges of
        Some (JArr rs) \<Rightarrow>
          if rs \<noteq> [] then
            let mins = List.map_filter (\<lambda>r. coerceInt (getKey (Some r) ''min'')) rs;
                maxs = List.map_filter (\<lambda>r. coerceInt (getKey (Some r) ''max'')) rs
            in if mins \<noteq> [] \<and> maxs \<noteq> [] then (Some (mathMin mins), Some (mathMax maxs))
               else (None, None)
          else (None, None)
      | _ \<Rightarrow> (None, None))"

definition primaryDetails :: "json \<Rightarrow> obj" where
  "primaryDetails preload =
     (let item = orJ (getKey (Some preload) ''item'') (Some (JObj []));
          minPlayers = coerceInt (getKey item ''minplayers'');
          maxPlayers = coerceInt (getKey item ''maxplayers'');
          minPlay = coerceInt (getKey item ''minplaytime'');
          maxPlay = coerceInt (getKey item ''maxplaytime'');
          weightFromPoll = getKey (getKey (getKey item ''polls'') ''boardgameweight'') ''averageweight'';
          weightFromStats = getKey (getKey item ''stats'') ''avgweight'';
          weight = coerceFloat (nullish weightFromPoll weightFromStats) (Some 2);
          bestRanges = getKey (getKey (getKey item ''polls'') ''userplayers'') ''best'';
          best = bestRangeOfRanges bestRanges
      in detailsObject minPlayers maxPlayers (fst best) (snd best) minPlay maxPlay weight)"

subsection \<open>Secondary: the \<^verbatim>\<open>__NEXT_DATA__\<close> object\<close>

definition suggestedPattern :: "item list" where
  "suggestedPattern = liti ''suggested_numplayers''"

definition bestPattern :: "item list" where
  "bestPattern = liti ''best''"

definition recommendedPattern :: "item list" where
  "recommendedPattern = liti ''recommended''"

definition notRecommendedPattern :: "item list" where
  "notRecommendedPattern = liti ''not'' @ [Item isWhiteSpace 0 None False] @ liti ''recommended''"

text \<open>\<^verbatim>\<open>pattern.test(v || "")\<close>: the argument is converted to a string.\<close>

definition testJ :: "item list \<Rightarrow> json option \<Rightarrow> bool" where
  "testJ pat v =
     (case orJ v (Some (JStr [])) of None \<Rightarrow> test pat [] | Some j \<Rightarrow> test pat (toString j))"

text \<open>\<^verbatim>\<open>Array.isArray(r?.result) ? r.result.find(rr => pattern.test(rr?.value || "")) : null\<close>\<close>

definition resultEntry :: "item list \<Rightarrow> json \<Rightarrow> json option" where
  "resultEntry pat r =
     (case getKey (Some r) ''result'' of
        Some (JArr es) \<Rightarrow> find (\<lambda>rr. testJ pat (getKey (Some rr) ''value'')) es
      | _ \<Rightarrow> None)"

text \<open>\<^verbatim>\<open>coerceInt(entry?.numvotes) || 0\<close>\<close>

definition votes :: "json option \<Rightarrow> jsnum" where
  "votes entry =
     (case coerceInt (getKey entry ''numvotes'') of
        None \<Rightarrow> Fin 0
      | Some n \<Rightarrow> if n = NaN \<or> n = Fin 0 then Fin 0 else n)"

definition bestVotes :: "json \<Rightarrow> jsnum" where
  "bestVotes r = votes (resultEntry bestPattern r)"

definition recVotes :: "json \<Rightarrow> jsnum" where
  "recVotes r = votes (resultEntry recommendedPattern r)"

definition notRecVotes :: "json \<Rightarrow> jsnum" where
  "notRecVotes r = votes (resultEntry notRecommendedPattern r)"

text \<open>The player count of one option: the first run of digits of its token.\<close>

definition optionNum :: "json \<Rightarrow> jsnum option" where
  "optionNum r =
     (let numPlayersToken =
            orJ (orJ (getKey (Some r) ''numplayers'') (getKey (Some r) ''numPlayers'')) (Some (JStr []));
          tokenText = (case numPlayersToken of None \<Rightarrow> [] | Some j \<Rightarrow> toString j)
      in case search [Item isDigit 1 None True] tokenText of
           Some (d # _) \<Rightarrow> coerceInt (Some (JStr d))
         | _ \<Rightarrow> None)"

text \<open>\<^verbatim>\<open>a === b\<close> on numbers\<close>

definition strictEq :: "jsnum \<Rightarrow> jsnum \<Rightarrow> bool" where
  "strictEq a b \<longleftrightarrow> a \<noteq> NaN \<and> b \<noteq> NaN \<and> a = b"

text \<open>The test that ends the loop body:
  \<^verbatim>\<open>maxVotes > 0 && bestVotes === maxVotes\<close>.\<close>

definition bestIsMax :: "json \<Rightarrow> bool" where
  "bestIsMax r =
     (let maxVotes = mathMax [bestVotes r, recVotes r, notRecVotes r]
      in jsLess (Fin 0) maxVotes \<and> strictEq (bestVotes r) maxVotes)"

fun bestNumbers :: "json list \<Rightarrow> jsnum list" where
  "bestNumbers [] = []"
| "bestNumbers (r # rs) =
     (case optionNum r of
        None \<Rightarrow> bestNumbers rs
      | Some num \<Rightarrow>
          if num = NaN \<or> num = Fin 0 then bestNumbers rs
          else if bestIsMax r then num # bestNumbers rs
          else bestNumbers rs)"

definition bestRangeOfPolls :: "json option \<Rightarrow> jsnum option \<times> jsnum option" where
  "bestRangeOfPolls polls =
     (let bestPoll =
            (case polls of
               Some (JArr ps) \<Rightarrow> find (\<lambda>p. testJ suggestedPattern (getKey (Some p) ''name'')) ps
             | _ \<Rightarrow> None)
      in if truthyJ bestPoll then
           (case getKey bestPoll ''results'' of
              Some (JArr results) \<Rightarrow>
                let nums = bestNumbers results
                in if nums \<noteq> [] then (Some (mathMin nums), Some (mathMax nums))
                   else (None, None)
            | _ \<Rightarrow> (None, None))
         else (None, None))"

definition secondaryDetails :: "json \<Rightarrow> obj" where
  "secondaryDetails nextData =
     (let pageProps = orJ (getKey (getKey (Some nextData) ''props'') ''pageProps'') (Some (JObj []));
          game = orJ (getKey pageProps ''game'')
                   (orJ (getKey (getKey pageProps ''data'') ''game'')
                      (orJ (getKey pageProps ''boardgame'') pageProps));
          minPlayers = coerceInt
            (nullish (getKey game ''minplayers'') (nullish (getKey game ''minPlayers'')
               (nullish (getKey pageProps ''minplayers'') (getKey pageProps ''minPlayers''))));
          maxPlayers = coerceInt
            (nullish (getKey game ''maxplayers'') (nullish (getKey game ''maxPlayers'')
               (nullish (getKey pageProps ''maxplayers'') (getKey pageProps ''maxPlayers''))));
          minPlay = coerceInt
            (nullish (getKey game ''minplaytime'') (nullish (getKey game ''minPlaytime'')
               (nullish (getKey pageProps ''minplaytime'') (getKey pageProps ''minPlaytime''))));
          maxPlay = coerceInt
            (nullish (getKey game ''maxplaytime'') (nullish (getKey game ''maxPlaytime'')
               (nullish (getKey pageProps ''maxplaytime'') (getKey pageProps ''maxPlaytime''))));
          weightRaw =
            nullish (getKey (getKey (getKey game ''statistics'') ''ratings'') ''averageweight'')
              (nullish (getKey game ''averageweight'')
                 (nullish (getKey game ''averageWeight'')
                    (nullish (getKey (getKey (getKey pageProps ''statistics'') ''ratings'') ''averageweight'')
                       (nullish (getKey pageProps ''averageweight'') (getKey pageProps ''averageWeight'')))));
          weight = coerceFloat weightRaw (Some 2);
          polls = orJ (getKey game ''polls'') (orJ (getKey pageProps ''polls'') (Some (JArr [])));
          best = bestRangeOfPolls polls
      in detailsObject minPlayers maxPlayers (fst best) (snd best) minPlay maxPlay weight)"

subsection \<open>Fallback: the visible text\<close>

definition rangeTail :: "item list" where
  "rangeTail =
     [Item (\<lambda>c. \<not> isDigit c) 0 None False, Item isDigit 1 None True,
      Item isWhiteSpace 0 None False, Item isDash 1 (Some 1) False,
      Item isWhiteSpace 0 None False, Item isDigit 1 None True]"

definition playersPattern :: "item list" where
  "playersPattern = liti ''Players'' @ rangeTail"

definition timePattern :: "item list" where
  "timePattern = liti ''Playing'' @ [Item isWhiteSpace 0 None False] @ liti ''time'' @ rangeTail"

definition bestTextPattern :: "item list" where
  "bestTextPattern =
     liti ''Best:'' @
     [Item isWhiteSpace 0 None False,
      Item (\<lambda>c. isDigit c \<or> c = 44 \<or> isWhiteSpace c \<or> isDash c) 1 None True]"

definition weightPattern :: "item list" where
  "weightPattern =
     liti ''Weight'' @
     [Item (\<lambda>c. \<not> isDigit c) 0 None False, Item (\<lambda>c. isDigit c \<or> c = 46) 1 None True,
      Item isWhiteSpace 0 None False] @ lit ''/'' @ [Item isWhiteSpace 0 None False] @ lit ''5''"

definition complexityPattern :: "item list" where
  "complexityPattern =
     liti ''Complexity'' @
     [Item (\<lambda>c. \<not> isDigit c) 0 None False, Item (\<lambda>c. isDigit c \<or> c = 46) 1 None True]"

text \<open>\<^verbatim>\<open>matchAll(/\d+/g)\<close>: the maximal runs of digits, from the left.\<close>

fun digitRunsFrom :: "jsstr \<Rightarrow> jsstr \<Rightarrow> jsstr list" where
  "digitRunsFrom cur [] = (if cur = [] then [] else [cur])"
| "digitRunsFrom cur (c # cs) =
     (if isDigit c then digitRunsFrom (cur @ [c]) cs
      else if cur = [] then digitRunsFrom [] cs
      else cur # digitRunsFrom [] cs)"

definition parseBestPlayersFromText :: "jsstr \<Rightarrow> jsnum option \<times> jsnum option" where
  "parseBestPlayersFromText text =
     (if text = [] then (None, None)
      else (case search bestTextPattern text of
              Some (b # _) \<Rightarrow>
                let nums = map Number (digitRunsFrom [] b)
                in if nums = [] then (None, None) else (Some (mathMin nums), Some (mathMax nums))
            | _ \<Rightarrow> (None, None)))"

definition textDetails :: "jsstr \<Rightarrow> obj" where
  "textDetails headerText =
     (let playersRange = search playersPattern headerText;
          minPlayers = (case playersRange of Some (a # _) \<Rightarrow> coerceInt (Some (JStr a)) | _ \<Rightarrow> None);
          maxPlayers = (case playersRange of Some (_ # b # _) \<Rightarrow> coerceInt (Some (JStr b)) | _ \<Rightarrow> None);
          bestPlayers = parseBestPlayersFromText headerText;
          timeRange = search timePattern headerText;
          minPlay = (case timeRange of Some (a # _) \<Rightarrow> coerceInt (Some (JStr a)) | _ \<Rightarrow> None);
          maxPlay = (case timeRange of Some (_ # b # _) \<Rightarrow> coerceInt (Some (JStr b)) | _ \<Rightarrow> None);
          weightMatch =
            (case search weightPattern headerText of
               Some m \<Rightarrow> Some m
             | None \<Rightarrow> search complexityPattern headerText);
          weight = (case weightMatch of Some (w # _) \<Rightarrow> coerceFloat (Some (JStr w)) (Some 2) | _ \<Rightarrow> None)
      in detailsObject minPlayers maxPlayers (fst bestPlayers) (snd bestPlayers) minPlay maxPlay weight)"

subsection \<open>The page and the order of the strategies\<close>

text \<open>The outcome of \<^verbatim>\<open>JSON.parse\<close> on a located block.\<close>

datatype parsed = ParseError | Parsed json

text \<open>
  An HTML document, as the program reads it: the rows of the listing table and the
  \<^verbatim>\<open>href\<close> of the first ``Next'' link (for \<^verbatim>\<open>extractGamesFromHtml\<close> and
  \<^verbatim>\<open>getNextPageUrl\<close>); the block that the pattern for \<^verbatim>\<open>GEEK.geekitemPreload\<close> captures
  (\<open>None\<close> when the pattern does not match) and the text of the script
  \<^verbatim>\<open>__NEXT_DATA__\<close> (\<open>None\<close> when it is empty or absent), each as \<^verbatim>\<open>JSON.parse\<close> reads
  it; and the text of the body.
\<close>

record html =
  listingRows :: "row list"
  nextHref :: "jsstr option"
  preloadBlock :: "parsed option"
  nextDataBlock :: "parsed option"
  bodyText :: jsstr

definition extractDetailsFromGameHtml :: "html \<Rightarrow> obj" where
  "extractDetailsFromGameHtml page =
     (case preloadBlock page of
        Some (Parsed preload) \<Rightarrow> primaryDetails preload
      | _ \<Rightarrow>
          (case nextDataBlock page of
             Some (Parsed nextData) \<Rightarrow> secondaryDetails nextData
           | _ \<Rightarrow> textDetails (bodyText page)))"

section \<open>The network, the file system and the log\<close>

text \<open>
  \<open>fetchHtml env n url\<close> is the outcome of the request for \<open>url\<close> when \<open>n\<close> requests
  have been made before it: the document, or \<open>None\<close> when \<^verbatim>\<open>axios.get\<close> throws.
  \<open>resolveUrl\<close> is the URL constructor and \<open>writeFileSync env path data\<close> tells
  whether writing the file succeeds.
\<close>

record env =
  fetchHtml :: "nat \<Rightarrow> jsstr \<Rightarrow> html option"
  resolveUrl :: resolver
  writeFileSync :: "jsstr \<Rightarrow> obj list \<Rightarrow> bool"

datatype message =
  ScrapedPage nat nat nat
| Enriched "jsval option" "jsval option" nat nat
| ErrorScraping jsstr
| ErrorFetchingDetails "jsval option"
| Wrote nat jsstr
| OpenIndexHint

text \<open>What the run does, in order: requests, pauses, lines on standard output and
  lines on standard error.\<close>

datatype event = Requested jsstr | Slept jsnum | Printed message | Reported message

record state =
  requests :: nat
  events :: "event list"

definition request :: "env \<Rightarrow> jsstr \<Rightarrow> state \<Rightarrow> html option \<times> state" where
  "request env url st =
     (fetchHtml env (requests st) url,
      st\<lparr>requests := Suc (requests st), events := events st @ [Requested url]\<rparr>)"

definition emit :: "event \<Rightarrow> state \<Rightarrow> state" where
  "emit e st = st\<lparr>events := events st @ [e]\<rparr>"

text \<open>\<^verbatim>\<open>if (delayMs > 0) await sleep(delayMs)\<close>\<close>

definition pause :: "jsnum \<Rightarrow> state \<Rightarrow> state" where
  "pause delayMs st = (if jsLess (Fin 0) delayMs then emit (Slept delayMs) st else st)"

section \<open>Fetch-with-Retry\<close>

definition allMissing :: obj where
  "allMissing = detailsObject None None None None None None None"

text \<open>The loop of \<^verbatim>\<open>fetchGameDetails\<close>, by the number of attempts left; \<open>None\<close> is the
  exception thrown after the last attempt.\<close>

fun fetchLoop :: "env \<Rightarrow> jsstr \<Rightarrow> nat \<Rightarrow> nat \<Rightarrow> state \<Rightarrow> obj option \<times> state" where
  "fetchLoop env gameUrl attempt 0 st = (None, st)"
| "fetchLoop env gameUrl attempt (Suc left) st =
     (case request env gameUrl st of
        (Some page, st1) \<Rightarrow> (Some (extractDetailsFromGameHtml page), st1)
      | (None, st1) \<Rightarrow>
          let backoff = min 2000 (250 * attempt)
          in fetchLoop env gameUrl (Suc attempt) left (emit (Slept (Fin (of_nat backoff))) st1))"

text \<open>The \<^verbatim>\<open>url\<close> of a record is text or null; an empty or missing one is falsy.\<close>

definition fetchGameDetails :: "env \<Rightarrow> jsval option \<Rightarrow> nat \<Rightarrow> state \<Rightarrow> obj option \<times> state" where
  "fetchGameDetails env gameUrl attempts st =
     (case gameUrl of
        Some (Str u) \<Rightarrow> if u = [] then (Some allMissing, st) else fetchLoop env u 1 attempts st
      | _ \<Rightarrow> (Some allMissing, st))"

section \<open>Crawl Orchestrator\<close>

definition START_URL :: jsstr where
  "START_URL = js ''https://boardgamegeek.com/browse/boardgame''"

record args =
  allPages :: bool
  out :: jsstr
  delayMs :: jsnum
  limit :: jsnum

fun parseArgsFrom :: "args \<Rightarrow> jsstr list \<Rightarrow> args" where
  "parseArgsFrom a [] = a"
| "parseArgsFrom a [x] =
     (if x = js ''--all-pages'' \<or> x = js ''-a'' then a\<lparr>allPages := True\<rparr> else a)"
| "parseArgsFrom a (x # y # zs) =
     (if x = js ''--all-pages'' \<or> x = js ''-a'' then parseArgsFrom (a\<lparr>allPages := True\<rparr>) (y # zs)
      else if x = js ''--out'' \<or> x = js ''-o'' then parseArgsFrom (a\<lparr>out := y\<rparr>) zs
      else if x = js ''--delay'' \<or> x = js ''-d'' then parseArgsFrom (a\<lparr>delayMs := Number y\<rparr>) zs
      else if x = js ''--limit'' \<or> x = js ''-l''
        then parseArgsFrom (a\<lparr>limit := mathMax [Fin 1, Number y]\<rparr>) zs
      else parseArgsFrom a (y # zs))"

definition parseArgs :: "jsstr list \<Rightarrow> args" where
  "parseArgs argv =
     parseArgsFrom
       \<lparr>allPages = False, out = js ''boardgames.json'', delayMs = Fin 500, limit = Fin 250\<rparr>
       (drop 2 argv)"

definition extractGamesFromHtml :: "resolver \<Rightarrow> html \<Rightarrow> obj list option" where
  "extractGamesFromHtml resolve page = extractRows resolve (listingRows page)"

text \<open>The outer \<open>None\<close> is an exception of the URL constructor, the inner one is
  \<^verbatim>\<open>null\<close>.\<close>

definition getNextPageUrl :: "resolver \<Rightarrow> html \<Rightarrow> jsstr option option" where
  "getNextPageUrl resolve page =
     (case nextHref page of
        None \<Rightarrow> Some None
      | Some relative \<Rightarrow>
          if relative = [] then Some None
          else if startsWith relative (js ''http'') then Some (Some relative)
          else (case resolve relative START_URL of
                  None \<Rightarrow> None
                | Some u \<Rightarrow> Some (Some u)))"

text \<open>\<^verbatim>\<open>allPages ? Infinity : Math.max(1, Number(limit) || 250)\<close>\<close>

definition targetCount :: "args \<Rightarrow> jsnum" where
  "targetCount a =
     (if allPages a then PosInf
      else mathMax [Fin 1, if limit a = NaN \<or> limit a = Fin 0 then Fin 250 else limit a])"

text \<open>\<^verbatim>\<open>results.slice(0, targetCount)\<close>\<close>

definition sliceTo :: "jsnum \<Rightarrow> 'a list \<Rightarrow> 'a list" where
  "sliceTo t xs =
     (case mathTrunc t of
        PosInf \<Rightarrow> xs
      | Fin q \<Rightarrow> (if q < 0 then take (length xs - nat \<lfloor>- q\<rfloor>) xs else take (nat \<lfloor>q\<rfloor>) xs)
      | _ \<Rightarrow> [])"

text \<open>
  The \<^verbatim>\<open>while (url)\<close> loop of \<^verbatim>\<open>scrapeAll\<close>. The loop ends only by a \<^verbatim>\<open>break\<close>, and
  a listing whose ``Next'' links never end keeps it running: the first argument bounds
  the number of pages, and \<open>None\<close> says that the bound was reached with the loop still
  running. The set of known ranks is computed once for a page, before its records are
  appended.
\<close>

fun crawl ::
  "nat \<Rightarrow> env \<Rightarrow> args \<Rightarrow> jsstr \<Rightarrow> nat \<Rightarrow> obj list \<Rightarrow> state \<Rightarrow> (obj list \<times> state) option" where
  "crawl 0 env a url page results st = None"
| "crawl (Suc fuel) env a url page results st =
     (if url = [] then Some (results, st)
      else
        (case request env url st of
           (None, st1) \<Rightarrow> Some (results, emit (Reported (ErrorScraping url)) st1)
         | (Some doc, st1) \<Rightarrow>
             (case extractGamesFromHtml (resolveUrl env) doc of
                None \<Rightarrow> Some (results, emit (Reported (ErrorScraping url)) st1)
              | Some pageGames \<Rightarrow>
                  let existingRanks = set (map (\<lambda>g. getProp g ''rank'') results);
                      results' = results @ filter (\<lambda>g. getProp g ''rank'' \<notin> existingRanks) pageGames;
                      st2 = emit (Printed (ScrapedPage page (length pageGames) (length results'))) st1
                  in if \<not> allPages a \<and> jsLe (targetCount a) (Fin (of_nat (length results')))
                     then Some (results', st2)
                     else
                       (case getNextPageUrl (resolveUrl env) doc of
                          None \<Rightarrow> Some (results', emit (Reported (ErrorScraping url)) st2)
                        | Some None \<Rightarrow> Some (results', st2)
                        | Some (Some nextUrl) \<Rightarrow>
                            if nextUrl = [] then Some (results', st2)
                            else crawl fuel env a nextUrl (Suc page) results' (pause (delayMs a) st2)))))"

text \<open>The enrichment loop over the selected records, with the index of the current
  record and the number of selected records for the log.\<close>

fun enrich :: "env \<Rightarrow> args \<Rightarrow> nat \<Rightarrow> nat \<Rightarrow> obj list \<Rightarrow> state \<Rightarrow> obj list \<times> state" where
  "enrich env a i n [] st = ([], st)"
| "enrich env a i n (game # rest) st =
     (case fetchGameDetails env (getProp game ''url'') 3 st of
        (Some details, st1) \<Rightarrow>
          let game' = objectAssign game details;
              st2 = emit (Printed (Enriched (getProp game' ''rank'') (getProp game' ''title'') (Suc i) n)) st1;
              st3 = pause (delayMs a) st2;
              r = enrich env a (Suc i) n rest st3
          in (game' # fst r, snd r)
      | (None, st1) \<Rightarrow>
          let st2 = emit (Reported (ErrorFetchingDetails (getProp game ''title''))) st1;
              r = enrich env a (Suc i) n rest st2
          in (game # fst r, snd r))"

definition selectGames :: "args \<Rightarrow> obj list \<Rightarrow> obj list" where
  "selectGames a results = (if allPages a then results else sliceTo (targetCount a) results)"

definition initialState :: state where
  "initialState = \<lparr>requests = 0, events = []\<rparr>"

definition scrapeAll :: "nat \<Rightarrow> env \<Rightarrow> args \<Rightarrow> (obj list \<times> state) option" where
  "scrapeAll fuel env a =
     (case crawl fuel env a START_URL 1 [] initialState of
        None \<Rightarrow> None
      | Some (results, st) \<Rightarrow>
          let selected = selectGames a results
          in Some (enrich env a 0 (length selected) selected st))"

text \<open>
  The outcome of the process: the file written (path and content), the events, and the
  exit status. A run that reaches the end of \<^verbatim>\<open>main\<close> exits with status 0. When
  \<^verbatim>\<open>writeFileSync\<close> throws, the promise of \<^verbatim>\<open>main\<close> is rejected and nothing handles it:
  Node ends the process with status 1.
\<close>

record outcome =
  exitStatus :: nat
  written :: "(jsstr \<times> obj list) option"
  trace :: "event list"

definition main :: "nat \<Rightarrow> env \<Rightarrow> jsstr list \<Rightarrow> outcome option" where
  "main fuel env argv =
     (let a = parseArgs argv
      in case scrapeAll fuel env a of
           None \<Rightarrow> None
         | Some (names, st) \<Rightarrow>
             if writeFileSync env (out a) names then
               Some \<lparr>exitStatus = 0, written = Some (out a, names),
                     trace = events st @ [Printed (Wrote (length names) (out a)), Printed OpenIndexHint]\<rparr>
             else Some \<lparr>exitStatus = 1, written = None, trace = events st\<rparr>)"

section \<open>The two groups of fields\<close>

text \<open>The properties of a record made by the listing extractor, and the properties of
  the object made by the detail extractor, in the order of the object literals.\<close>

definition listingKeys :: "string list" where
  "listingKeys =
     [''rank'', ''title'', ''year'', ''image'', ''url'', ''geek_rating'', ''avg_rating'', ''num_voters'']"

definition detailKeys :: "string list" where
  "detailKeys =
     [''min_players'', ''max_players'', ''min_best_players'', ''max_best_players'',
      ''min_playing_time'', ''max_playing_time'', ''weight'']"

text \<open>What the enrichment loop does to one record: nothing, or the seven detail
  properties appended.\<close>

definition enriched :: "obj \<Rightarrow> obj \<Rightarrow> bool" where
  "enriched ob g \<longleftrightarrow> ob = g \<or> (\<exists>d. map fst d = detailKeys \<and> ob = g @ d)"

section \<open>Example inputs\<close>

definition exRow :: row where
  "exRow = \<lparr>tdCount = 7, rankSort = None, rankCellText = js '' 1 '',
     imgSrc = None, imgDataSrc = Some (js ''//cf.geekdo-images.com/a.jpg''),
     titleAnchorText = js ''Brass: Birmingham'', titleCellText = js ''Brass: Birmingham (2018) text'',
     titleHref = Some (js ''/boardgame/224517/brass-birmingham''),
     grSort = None, grText = js ''8.412'', arSort = None, arText = js ''8.59'', nvSort = None, nvText = js ''47,123''\<rparr>"

definition exResolve :: resolver where
  "exResolve href base = Some (base @ href)"

definition exGame :: obj where
  "exGame =
     [(''rank'', Num (Fin 1)),
      (''title'', Str (js ''Brass: Birmingham'')),
      (''year'', Num (Fin 2018)),
      (''image'', Str (js ''@https://cf.geekdo-images.com/a.jpg'')),
      (''url'', Str (js ''https://boardgamegeek.com/boardgame/224517/brass-birmingham'')),
      (''geek_rating'', Num (Fin (8412 / 1000))),
      (''avg_rating'', Num (Fin (859 / 100))),
      (''num_voters'', Num (Fin 47123))]"

text \<open>A poll with the two options of the best-range example: for 3 players best 5,
  recommended 2, not recommended 0; for 4 players best 5, recommended 5, not
  recommended 0.\<close>

definition tally :: "string \<Rightarrow> rat \<Rightarrow> json" where
  "tally v n = JObj [(''value'', JStr (js v)), (''numvotes'', JNum n)]"

definition option3 :: json where
  "option3 =
     JObj [(''numplayers'', JStr (js ''3'')),
           (''result'', JArr [tally ''Best'' 5, tally ''Recommended'' 2, tally ''Not Recommended'' 0])]"

definition option4 :: json where
  "option4 =
     JObj [(''numplayers'', JStr (js ''4'')),
           (''result'', JArr [tally ''Best'' 5, tally ''Recommended'' 5, tally ''Not Recommended'' 0])]"

definition exPoll :: json where
  "exPoll =
     JObj [(''name'', JStr (js ''suggested_numplayers'')), (''results'', JArr [option3, option4])]"

definition exPolls :: json where
  "exPolls = JArr [exPoll]"

definition exNextData :: json where
  "exNextData =
     JObj [(''props'', JObj [(''pageProps'', JObj [(''game'',
       JObj [(''minplayers'', JNum 2), (''maxplayers'', JNum 4), (''polls'', exPolls)])])])]"



text \<open>A detail page with both blocks, which disagree on the player counts, and a
  page with neither.\<close>

definition exPreload :: json where
  "exPreload = JObj [(''item'', JObj [(''minplayers'', JNum 1), (''maxplayers'', JNum 5)])]"

definition bothPage :: html where
  "bothPage =
     \<lparr>listingRows = [], nextHref = None, preloadBlock = Some (Parsed exPreload),
      nextDataBlock = Some (Parsed exNextData), bodyText = js ''Players 2-4''\<rparr>"


text \<open>A listing page with two rows and no ``Next'' link, and a network that serves it
  at the start URL, serves a detail page for the second record, and fails on every
  other request: the detail page of the first record is never fetched with success.\<close>

definition exRow2 :: row where
  "exRow2 =
     exRow\<lparr>rankCellText := js ''2'', titleAnchorText := js ''Ark Nova'',
           titleHref := Some (js ''/boardgame/342942/ark-nova'')\<rparr>"

definition exGame2 :: obj where
  "exGame2 =
     [(''rank'', Num (Fin 2)),
      (''title'', Str (js ''Ark Nova'')),
      (''year'', Num (Fin 2018)),
      (''image'', Str (js ''@https://cf.geekdo-images.com/a.jpg'')),
      (''url'', Str (js ''https://boardgamegeek.com/boardgame/342942/ark-nova'')),
      (''geek_rating'', Num (Fin (8412 / 1000))),
      (''avg_rating'', Num (Fin (859 / 100))),
      (''num_voters'', Num (Fin 47123))]"

definition listingPage :: html where
  "listingPage =
     \<lparr>listingRows = [exRow, exRow2], nextHref = None, preloadBlock = None,
      nextDataBlock = None, bodyText = []\<rparr>"

definition exUrl1 :: jsstr where
  "exUrl1 = js ''https://boardgamegeek.com/boardgame/224517/brass-birmingham''"

definition exUrl2 :: jsstr where
  "exUrl2 = js ''https://boardgamegeek.com/boardgame/342942/ark-nova''"

definition exEnv :: env where
  "exEnv =
     \<lparr>fetchHtml = (\<lambda>n url. if url = START_URL then Some listingPage
                           else if url = exUrl2 then Some bothPage else None),
      resolveUrl = exResolve,
      writeFileSync = (\<lambda>path data. True)\<rparr>"

definition exArgv :: "jsstr list" where
  "exArgv = [js ''node'', js ''scrape.js'']"

text \<open>A listing page on which two rows carry the same rank.\<close>

definition exRowSameRank :: row where
  "exRowSameRank = exRow2\<lparr>rankCellText := js ''1''\<rparr>"

definition sameRankPage :: html where
  "sameRankPage =
     \<lparr>listingRows = [exRow, exRowSameRank], nextHref = None, preloadBlock = None,
      nextDataBlock = None, bodyText = []\<rparr>"

definition sameRankEnv :: env where
  "sameRankEnv =
     \<lparr>fetchHtml = (\<lambda>n url. if url = START_URL then Some sameRankPage else None),
      resolveUrl = exResolve,
      writeFileSync = (\<lambda>path data. True)\<rparr>"

text \<open>A network on which every request fails.\<close>

definition downEnv :: env where
  "downEnv =
     \<lparr>fetchHtml = (\<lambda>n url. None), resolveUrl = exResolve, writeFileSync = (\<lambda>path data. True)\<rparr>"

section \<open>Properties of the normalizer\<close>













lemmas number_parse_defs = normalizeNumber_def stripSeparators_def trim_def isWhiteSpace_def js_def
  Number_def nonDecimalLiteral_def strUnsignedDecimalLiteral_def isDigit_def exponentPart_def
  digitsVal_def scale10_def







lemmas roundTo_defs = roundTo_def addFin_def mulPos_def divPos_def mathRound_def EPSILON_def



section \<open>Properties of the listing extractor\<close>

lemma orElse_empty [simp]: "orElse a [] = (case a of None \<Rightarrow> [] | Some s \<Rightarrow> s)"
  by (auto simp: orElse_def split: option.splits)

lemma extractRow_image:
  "extractRow resolve r = Some (Some g) \<Longrightarrow> getProp g ''image'' = Some (imageField r)"
  by (auto simp: extractRow_def Let_def getProp_def split: if_splits option.splits)

text \<open>
  Claim C10. For a row that yields a record, let \<open>raw\<close> be the image source
  (\<^verbatim>\<open>src\<close>, else \<^verbatim>\<open>data-src\<close>) and \<open>ref\<close> the reference after a protocol-relative
  \<open>raw\<close> got \<^verbatim>\<open>https:\<close>. With no source the image field is null (not empty
  text) and the viewer makes no image; otherwise the field is \<^verbatim>\<open>@\<close> followed by
  \<open>ref\<close>, and the viewer's \<^verbatim>\<open>img.src\<close> is exactly \<open>ref\<close>.
\<close>

theorem image_marker:
  assumes "extractRow resolve r = Some (Some g)"
  shows "let raw = orElse (imgSrc r) (orElse (imgDataSrc r) []);
             ref = (if startsWith raw (js ''//'') then js ''https:'' @ raw else raw)
         in getProp g ''image'' = Some (if raw = [] then Null else Str (64 # ref)) \<and>
            renderImgSrc (getProp g ''image'') = (if raw = [] then None else Some (Str ref))"
proof -
  have i: "getProp g ''image'' = Some (imageField r)" by (rule extractRow_image[OF assms])
  show ?thesis
    unfolding i Let_def
    by (auto simp: imageField_def imageSource_def Let_def renderImgSrc_def truthy_def startsWith_def js_def)
qed

lemma extractRow_exRow: "extractRow exResolve exRow = Some (Some exGame)"
  by (simp add: extractRow_def exRow_def exResolve_def exGame_def Let_def
      imageField_def imageSource_def startsWith_def orElse_def yearField_def yearPattern_def lit_def
      matchHere_def
      numOrNull_def strOrNull_def roundTo_defs floor_eq_iff number_parse_defs)

text \<open>Claim C10 on a row whose image has a protocol-relative \<^verbatim>\<open>data-src\<close>.\<close>

theorem image_marker_witness:
  "extractRow exResolve exRow = Some (Some exGame) \<and>
   getProp exGame ''image'' = Some (Str (js ''@https://cf.geekdo-images.com/a.jpg'')) \<and>
   renderImgSrc (getProp exGame ''image'') = Some (Str (js ''https://cf.geekdo-images.com/a.jpg''))"
proof -
  have raw: "orElse (imgSrc exRow) (orElse (imgDataSrc exRow) []) = js ''//cf.geekdo-images.com/a.jpg''"
    by (simp add: exRow_def orElse_def)
  have sw: "startsWith (js ''//cf.geekdo-images.com/a.jpg'') (js ''//'')"
    by (simp add: startsWith_def js_def)
  have ne: "js ''//cf.geekdo-images.com/a.jpg'' \<noteq> []"
    by (simp add: js_def)
  have cat: "64 # js ''https:'' @ js ''//cf.geekdo-images.com/a.jpg'' = js ''@https://cf.geekdo-images.com/a.jpg''"
    "js ''https:'' @ js ''//cf.geekdo-images.com/a.jpg'' = js ''https://cf.geekdo-images.com/a.jpg''"
    by (simp_all add: js_def)
  note m = image_marker[OF extractRow_exRow, unfolded Let_def raw]
  have g: "getProp exGame ''image'' = Some (Str (js ''@https://cf.geekdo-images.com/a.jpg''))"
    using m[THEN conjunct1] sw ne by (simp add: js_def)
  have v: "renderImgSrc (getProp exGame ''image'') = Some (Str (js ''https://cf.geekdo-images.com/a.jpg''))"
    using m[THEN conjunct2] sw ne by (simp add: js_def)
  show ?thesis using g v extractRow_exRow by blast
qed

section \<open>Properties of the detail extractor\<close>

lemmas regex_eval = test_def matchHere_def liti_def lit_def upperAscii_def isDigit_def
  isWhiteSpace_def isDash_def js_def








lemma jsLe_total: "a \<noteq> NaN \<Longrightarrow> b \<noteq> NaN \<Longrightarrow> jsLe a b \<or> jsLe b a"
  by (cases a; cases b) (auto simp: jsLe_def jsLess_def)












lemmas coerce_eval = coerceInt_def numberToString_def natDigits.simps mathTrunc_def Let_def
  number_parse_defs

lemma coerceInt_small:
  "coerceInt (Some (JNum 0)) = Some (Fin 0)"
  "coerceInt (Some (JNum 2)) = Some (Fin 2)"
  "coerceInt (Some (JNum 4)) = Some (Fin 4)"
  "coerceInt (Some (JNum 5)) = Some (Fin 5)"
  "coerceInt (Some (JStr [51])) = Some (Fin 3)"
  "coerceInt (Some (JStr [52])) = Some (Fin 4)"
  by (simp_all add: coerce_eval)







lemma coerceInt_None: "coerceInt None = None"
  by (simp add: coerceInt_def)

lemma coerceFloat_None: "coerceFloat None d = None"
  by (simp add: coerceFloat_def)

lemma truthyJ_simps:
  "truthyJ None = False" "truthyJ (Some JNull) = False" "truthyJ (Some (JObj ps)) = True"
  "truthyJ (Some (JArr xs)) = True" "truthyJ (Some (JStr s)) = (s \<noteq> [])"
  by (simp_all add: truthyJ_def)










lemma coerceInt_one_five:
  "coerceInt (Some (JNum 1)) = Some (Fin 1)"
  by (simp_all add: coerce_eval)

lemma example_primaryDetails:
  "primaryDetails exPreload = detailsObject (Some (Fin 1)) (Some (Fin 5)) None None None None None"
  by (simp add: primaryDetails_def exPreload_def getKey_def orJ_def truthyJ_simps coerceInt_None
      coerceInt_small coerceInt_one_five coerceFloat_None nullish_def bestRangeOfRanges_def Let_def)

lemma example_textDetails:
  "textDetails (js ''Players 2-4'') = detailsObject (Some (Fin 2)) (Some (Fin 4)) None None None None None"
  by (simp add: textDetails_def parseBestPlayersFromText_def playersPattern_def timePattern_def
      bestTextPattern_def weightPattern_def complexityPattern_def rangeTail_def regex_eval Let_def
      coerce_eval)








section \<open>Properties of the crawl\<close>

lemma extractRow_keys: "extractRow resolve r = Some (Some g) \<Longrightarrow> map fst g = listingKeys"
  by (auto simp: extractRow_def Let_def listingKeys_def split: if_splits option.splits)

lemma extractRows_keys:
  "extractRows resolve rs = Some gs \<Longrightarrow> \<forall>g\<in>set gs. map fst g = listingKeys"
proof (induction rs arbitrary: gs)
  case Nil
  then show ?case by simp
next
  case (Cons r rs)
  then show ?case
    by (auto split: option.splits dest: extractRow_keys)
qed

lemma crawl_keys:
  "crawl fuel env a url page results st = Some (res, st') \<Longrightarrow>
   \<forall>g\<in>set results. map fst g = listingKeys \<Longrightarrow>
   \<forall>g\<in>set res. map fst g = listingKeys"
proof (induction fuel arbitrary: url page results st)
  case 0
  then show ?case by simp
next
  case (Suc fuel)
  show ?case
  proof (cases "url = []")
    case True
    with Suc.prems show ?thesis by simp
  next
    case False
    show ?thesis
    proof (cases "fetchHtml env (requests st) url")
      case None
      with False Suc.prems show ?thesis by (simp add: request_def)
    next
      case (Some doc)
      show ?thesis
      proof (cases "extractGamesFromHtml (resolveUrl env) doc")
        case None
        with False Some Suc.prems show ?thesis by (simp add: request_def)
      next
        case g: (Some pageGames)
        let ?results' = "results @ filter (\<lambda>g. getProp g ''rank'' \<notin> set (map (\<lambda>g. getProp g ''rank'') results)) pageGames"
        have pk: "\<forall>g\<in>set pageGames. map fst g = listingKeys"
          using g extractRows_keys by (simp add: extractGamesFromHtml_def)
        have rk: "\<forall>g\<in>set ?results'. map fst g = listingKeys"
          using pk Suc.prems(2) by auto
        from Suc.prems(1) False Some g
        consider (stop) "res = ?results'"
          | (rec) nextUrl st2 where "crawl fuel env a nextUrl (Suc page) ?results' st2 = Some (res, st')"
          by (auto simp: request_def Let_def split: if_splits option.splits)
        then show ?thesis
        proof cases
          case stop
          then show ?thesis using rk by simp
        next
          case rec
          then show ?thesis using Suc.IH rk by blast
        qed
      qed
    qed
  qed
qed


lemma detailsObject_keys: "map fst (detailsObject a b c d e f g) = detailKeys"
  by (simp add: detailsObject_def detailKeys_def)

lemma extractDetails_keys: "map fst (extractDetailsFromGameHtml page) = detailKeys"
  by (simp add: extractDetailsFromGameHtml_def primaryDetails_def secondaryDetails_def
      textDetails_def detailsObject_keys Let_def split: option.splits parsed.splits)

lemma fetchLoop_keys:
  "fetchLoop env u attempt left st = (Some d, st') \<Longrightarrow> map fst d = detailKeys"
proof (induction left arbitrary: attempt st)
  case 0
  then show ?case by simp
next
  case (Suc left)
  then show ?case
    by (auto simp: request_def Let_def extractDetails_keys split: option.splits)
qed

lemma fetchGameDetails_keys:
  "fetchGameDetails env gameUrl attempts st = (Some d, st') \<Longrightarrow> map fst d = detailKeys"
  by (auto simp: fetchGameDetails_def allMissing_def detailsObject_keys
      split: option.splits jsval.splits if_splits dest: fetchLoop_keys)

lemma setProp_fresh: "k \<notin> fst ` set ob \<Longrightarrow> setProp k v ob = ob @ [(k, v)]"
  by (induction ob) auto

lemma objectAssign_append:
  "distinct (map fst d) \<Longrightarrow> fst ` set d \<inter> fst ` set ob = {} \<Longrightarrow> objectAssign ob d = ob @ d"
proof (induction d arbitrary: ob)
  case Nil
  then show ?case by (simp add: objectAssign_def)
next
  case (Cons p d)
  obtain k v where p: "p = (k, v)" by (cases p)
  have fresh: "k \<notin> fst ` set ob" using Cons.prems(2) p by auto
  have "objectAssign ob (p # d) = objectAssign (ob @ [(k, v)]) d"
    by (simp add: objectAssign_def p setProp_fresh[OF fresh])
  also have "\<dots> = (ob @ [(k, v)]) @ d"
  proof (rule Cons.IH)
    show "distinct (map fst d)" using Cons.prems(1) by simp
    show "fst ` set d \<inter> fst ` set (ob @ [(k, v)]) = {}"
      using Cons.prems p by (auto simp: image_iff)
  qed
  finally show ?case by (simp add: p)
qed

lemma keys_disjoint: "set detailKeys \<inter> set listingKeys = {}"
  by (simp add: detailKeys_def listingKeys_def)

lemma detailKeys_distinct: "distinct detailKeys"
  by (simp add: detailKeys_def)

lemma merge_details:
  assumes "map fst g = listingKeys" and "map fst d = detailKeys"
  shows "objectAssign g d = g @ d"
proof (rule objectAssign_append)
  show "distinct (map fst d)" using assms(2) detailKeys_distinct by simp
  have "fst ` set d = set detailKeys" "fst ` set g = set listingKeys"
    using assms by (metis set_map)+
  then show "fst ` set d \<inter> fst ` set g = {}" using keys_disjoint by simp
qed

lemma listing_part:
  assumes "map fst g = listingKeys" and "map fst d = detailKeys"
  shows "filter (\<lambda>(k, v). k \<in> set listingKeys) (g @ d) = g"
proof -
  have g: "\<forall>p\<in>set g. fst p \<in> set listingKeys"
    using assms(1) by (metis image_eqI set_map)
  have d: "\<forall>p\<in>set d. fst p \<notin> set listingKeys"
  proof
    fix p assume "p \<in> set d"
    then have "fst p \<in> set detailKeys" using assms(2) by (metis image_eqI set_map)
    then show "fst p \<notin> set listingKeys" using keys_disjoint by auto
  qed
  have "filter (\<lambda>(k, v). k \<in> set listingKeys) g = g"
    using g by (auto simp: filter_id_conv)
  moreover have "filter (\<lambda>(k, v). k \<in> set listingKeys) d = []"
    using d by (auto simp: filter_empty_conv)
  ultimately show ?thesis by simp
qed

lemma listing_part_self:
  assumes "map fst g = listingKeys"
  shows "filter (\<lambda>(k, v). k \<in> set listingKeys) g = g"
proof -
  have "\<forall>p\<in>set g. fst p \<in> set listingKeys"
    using assms by (metis image_eqI set_map)
  then show ?thesis by (auto simp: filter_id_conv)
qed

lemma enrich_enriched:
  "\<forall>g\<in>set sel. map fst g = listingKeys \<Longrightarrow> list_all2 enriched (fst (enrich env a i n sel st)) sel"
proof (induction sel arbitrary: i st)
  case Nil
  then show ?case by simp
next
  case (Cons game rest)
  have gk: "map fst game = listingKeys" using Cons.prems by simp
  have ih: "list_all2 enriched (fst (enrich env a j n rest st'')) rest" for j st''
    using Cons.IH Cons.prems by simp
  obtain r st1 where f: "fetchGameDetails env (getProp game ''url'') 3 st = (r, st1)"
    by (cases "fetchGameDetails env (getProp game ''url'') 3 st")
  show ?case
  proof (cases r)
    case None
    have "enriched game game" by (simp add: enriched_def)
    then show ?thesis using f None ih by (simp add: Let_def)
  next
    case (Some d)
    have dk: "map fst d = detailKeys" using f Some fetchGameDetails_keys by blast
    have "enriched (objectAssign game d) game"
      unfolding enriched_def using merge_details[OF gk dk] dk by blast
    then show ?thesis using f Some ih by (simp add: Let_def)
  qed
qed

lemma enriched_listing_part:
  "map fst g = listingKeys \<Longrightarrow> enriched ob g \<Longrightarrow> filter (\<lambda>(k, v). k \<in> set listingKeys) ob = g"
  using listing_part[of g] listing_part_self[of g] by (auto simp: enriched_def)

lemma enriched_getProp:
  assumes "map fst g = listingKeys" and "enriched ob g" and "k \<in> set listingKeys"
  shows "getProp ob k = getProp g k"
proof -
  have "k \<in> fst ` set g" using assms(1,3) by (metis set_map)
  then have "map_of g k \<noteq> None" by (simp add: map_of_eq_None_iff)
  then show ?thesis using assms(2) by (auto simp: enriched_def getProp_def map_add_def split: option.splits)
qed

lemmas row_eval = extractRow_def Let_def imageField_def imageSource_def startsWith_def orElse_def
  yearField_def yearPattern_def lit_def matchHere_def numOrNull_def strOrNull_def roundTo_defs
  floor_eq_iff number_parse_defs

lemma extractRow_exRow2: "extractRow exResolve exRow2 = Some (Some exGame2)"
  by (simp add: exRow2_def exRow_def exResolve_def exGame2_def row_eval)

lemma exArgs: "parseArgs exArgv =
    \<lparr>allPages = False, out = js ''boardgames.json'', delayMs = Fin 500, limit = Fin 250\<rparr>"
  by (simp add: parseArgs_def exArgv_def)

lemma targetCount_exArgs: "targetCount (parseArgs exArgv) = Fin 250"
  by (simp add: exArgs targetCount_def mathMax_def max2_def jsLess_def)

lemma exArgs_fields:
  "allPages (parseArgs exArgv) = False" "delayMs (parseArgs exArgv) = Fin 500"
  "out (parseArgs exArgv) = js ''boardgames.json''"
  by (simp_all add: exArgs)

lemma START_URL_nonempty: "START_URL \<noteq> []"
  by (simp add: START_URL_def js_def)

lemma crawl_example:
  "crawl 1 exEnv (parseArgs exArgv) START_URL 1 [] initialState =
     Some ([exGame, exGame2],
       \<lparr>requests = 1, events = [Requested START_URL, Printed (ScrapedPage 1 2 2)]\<rparr>)"
proof -
  have rows: "extractGamesFromHtml exResolve listingPage = Some [exGame, exGame2]"
    by (simp add: extractGamesFromHtml_def listingPage_def extractRow_exRow extractRow_exRow2)
  have nxt: "getNextPageUrl exResolve listingPage = Some None"
    by (simp add: getNextPageUrl_def listingPage_def)
  have f: "fetchHtml exEnv 0 START_URL = Some listingPage" "resolveUrl exEnv = exResolve"
    by (simp_all add: exEnv_def)
  have one: "(1::nat) = Suc 0" by simp
  show ?thesis
    unfolding one
    by (simp add: START_URL_nonempty request_def initialState_def f rows nxt emit_def
        targetCount_exArgs jsLe_def jsLess_def exArgs_fields Let_def)
qed


lemma sliceTo_subset: "set (sliceTo t xs) \<subseteq> set xs"
  by (auto simp: sliceTo_def split: jsnum.splits dest: in_set_takeD)

lemma selectGames_subset: "set (selectGames a rs) \<subseteq> set rs"
  using sliceTo_subset[of "targetCount a" rs] by (auto simp: selectGames_def)

lemma enriched_lists:
  "list_all2 enriched outp sel \<Longrightarrow> \<forall>g\<in>set sel. map fst g = listingKeys \<Longrightarrow>
     map (filter (\<lambda>(k, v). k \<in> set listingKeys)) outp = sel"
  by (induction rule: list_all2_induct) (auto simp: enriched_listing_part)

text \<open>
  Claim C9. When the run returns, its output has one record for each selected
  record, in the same order. Each output record is the selected record itself or the
  selected record followed by the seven detail properties; its listing properties
  (rank, title, year, image, url, geek_rating, avg_rating, num_voters) are exactly those
  of the selected record, none removed and none changed.
\<close>

theorem enrichment_frame:
  assumes "scrapeAll fuel env a = Some (output, st)"
  shows "\<exists>results st1.
      crawl fuel env a START_URL 1 [] initialState = Some (results, st1) \<and>
      list_all2 enriched output (selectGames a results) \<and>
      map (filter (\<lambda>(k, v). k \<in> set listingKeys)) output = selectGames a results \<and>
      (\<forall>i<length output. \<forall>k\<in>set listingKeys.
         getProp (output ! i) k = getProp (selectGames a results ! i) k)"
proof -
  from assms obtain results st1 where
    c: "crawl fuel env a START_URL 1 [] initialState = Some (results, st1)"
    and o: "(output, st) = enrich env a 0 (length (selectGames a results)) (selectGames a results) st1"
    by (auto simp: scrapeAll_def Let_def split: option.splits)
  have rk: "\<forall>g\<in>set results. map fst g = listingKeys"
    using crawl_keys[OF c] by simp
  have sk: "\<forall>g\<in>set (selectGames a results). map fst g = listingKeys"
    using rk selectGames_subset by blast
  have e: "list_all2 enriched output (selectGames a results)"
    using enrich_enriched[OF sk, of env a 0 "length (selectGames a results)" st1] o
    by (metis fst_conv)
  have m: "map (filter (\<lambda>(k, v). k \<in> set listingKeys)) output = selectGames a results"
    by (rule enriched_lists[OF e sk])
  have p: "\<forall>i<length output. \<forall>k\<in>set listingKeys.
         getProp (output ! i) k = getProp (selectGames a results ! i) k"
  proof (intro allI impI ballI)
    fix i k assume i: "i < length output" and k: "k \<in> set listingKeys"
    have l: "length output = length (selectGames a results)"
      using e by (rule list_all2_lengthD)
    have "enriched (output ! i) (selectGames a results ! i)"
      using e i by (simp add: list_all2_nthD)
    moreover have "map fst (selectGames a results ! i) = listingKeys"
      using sk i l by simp
    ultimately show "getProp (output ! i) k = getProp (selectGames a results ! i) k"
      using k enriched_getProp by blast
  qed
  show ?thesis using c e m p by blast
qed

lemma selectGames_example: "selectGames (parseArgs exArgv) [exGame, exGame2] = [exGame, exGame2]"
  by (simp add: selectGames_def exArgs_fields targetCount_exArgs sliceTo_def mathTrunc_def)

lemma scrapeAll_example:
  "scrapeAll 1 exEnv (parseArgs exArgv) =
     Some (enrich exEnv (parseArgs exArgv) 0 (length [exGame, exGame2]) [exGame, exGame2]
       \<lparr>requests = 1, events = [Requested START_URL, Printed (ScrapedPage 1 2 2)]\<rparr>)"
  unfolding scrapeAll_def crawl_example by (simp add: selectGames_example del: enrich.simps)

text \<open>Claim C9 on the example run: the listing properties of the output are the two
  records of the listing page, in their order.\<close>

theorem enrichment_frame_witness:
  "map_option (map (filter (\<lambda>(k, v). k \<in> set listingKeys)) \<circ> fst)
     (scrapeAll 1 exEnv (parseArgs exArgv)) = Some [exGame, exGame2]"
proof -
  obtain outp st where s: "scrapeAll 1 exEnv (parseArgs exArgv) = Some (outp, st)"
    using scrapeAll_example by (metis surj_pair)
  from enrichment_frame[OF s] crawl_example
  have "map (filter (\<lambda>(k, v). k \<in> set listingKeys)) outp = [exGame, exGame2]"
    by (auto simp: selectGames_example)
  then show ?thesis unfolding s by simp
qed

section \<open>Properties of the enrichment and of the run\<close>

lemma fetchLoop_fails:
  "\<forall>n. fetchHtml env n u = None \<Longrightarrow> fst (fetchLoop env u attempt left st) = None"
  by (induction left arbitrary: attempt st) (simp_all add: request_def Let_def)

lemma fetchLoop_succeeds:
  "\<forall>n. fetchHtml env n u = Some page \<Longrightarrow>
     fst (fetchLoop env u attempt (Suc left) st) = Some (extractDetailsFromGameHtml page)"
  by (simp add: request_def)

lemma fetchLoop_events: "set (events st) \<subseteq> set (events (snd (fetchLoop env u attempt left st)))"
proof (induction left arbitrary: attempt st)
  case 0
  then show ?case by simp
next
  case (Suc left)
  show ?case
  proof (cases "fetchHtml env (requests st) u")
    case None
    have "set (events st) \<subseteq> set (events (emit (Slept (Fin (of_nat (min 2000 (250 * attempt)))))
        (st\<lparr>requests := Suc (requests st), events := events st @ [Requested u]\<rparr>)))"
      by (auto simp: emit_def)
    also have "\<dots> \<subseteq> set (events (snd (fetchLoop env u (Suc attempt) left
        (emit (Slept (Fin (of_nat (min 2000 (250 * attempt)))))
        (st\<lparr>requests := Suc (requests st), events := events st @ [Requested u]\<rparr>)))))"
      by (rule Suc.IH)
    finally show ?thesis using None by (simp add: request_def Let_def)
  next
    case (Some page)
    then show ?thesis by (auto simp: request_def)
  qed
qed

lemma fetchGameDetails_events:
  "set (events st) \<subseteq> set (events (snd (fetchGameDetails env gameUrl attempts st)))"
  using fetchLoop_events
  by (auto simp: fetchGameDetails_def split: option.splits jsval.splits)

lemma pause_events: "set (events st) \<subseteq> set (events (pause d st))"
  by (auto simp: pause_def emit_def)

lemma emit_events: "set (events (emit e st)) = insert e (set (events st))"
  by (auto simp: emit_def)

lemma enrich_events: "set (events st) \<subseteq> set (events (snd (enrich env a i n sel st)))"
proof (induction sel arbitrary: i st)
  case Nil
  then show ?case by simp
next
  case (Cons game rest)
  obtain r st1 where f: "fetchGameDetails env (getProp game ''url'') 3 st = (r, st1)"
    by (cases "fetchGameDetails env (getProp game ''url'') 3 st")
  have s1: "set (events st) \<subseteq> set (events st1)"
    using fetchGameDetails_events[of st env "getProp game ''url''" 3] f by simp
  show ?case
  proof (cases r)
    case None
    have "set (events st1) \<subseteq> set (events (emit (Reported (ErrorFetchingDetails (getProp game ''title''))) st1))"
      by (auto simp: emit_events)
    also have "\<dots> \<subseteq> set (events (snd (enrich env a (Suc i) n rest
        (emit (Reported (ErrorFetchingDetails (getProp game ''title''))) st1))))"
      by (rule Cons.IH)
    finally show ?thesis using f None s1 by (simp add: Let_def)
  next
    case (Some d)
    let ?st2 = "emit (Printed (Enriched (getProp (objectAssign game d) ''rank'')
        (getProp (objectAssign game d) ''title'') (Suc i) n)) st1"
    have "set (events st1) \<subseteq> set (events (pause (delayMs a) ?st2))"
      using pause_events[of ?st2 "delayMs a"] by (auto simp: emit_events)
    also have "\<dots> \<subseteq> set (events (snd (enrich env a (Suc i) n rest (pause (delayMs a) ?st2))))"
      by (rule Cons.IH)
    finally show ?thesis using f Some s1 by (simp add: Let_def)
  qed
qed


lemma fetchGameDetails_fails:
  "u \<noteq> [] \<Longrightarrow> \<forall>n. fetchHtml env n u = None \<Longrightarrow>
     fst (fetchGameDetails env (Some (Str u)) attempts st) = None"
  by (simp add: fetchGameDetails_def fetchLoop_fails)

lemma fetchGameDetails_succeeds:
  "u \<noteq> [] \<Longrightarrow> \<forall>n. fetchHtml env n u = Some page \<Longrightarrow>
     fst (fetchGameDetails env (Some (Str u)) 3 st) = Some (extractDetailsFromGameHtml page)"
  using fetchLoop_succeeds[of env u page 1 2 st]
  by (simp add: fetchGameDetails_def numeral_3_eq_3)

text \<open>What the enrichment loop does to a record whose detail URL always fails, and to
  one whose detail URL always gives the same page.\<close>

lemma enrich_by_url:
  "list_all2
     (\<lambda>ob g.
        (\<forall>u. getProp g ''url'' = Some (Str u) \<and> u \<noteq> [] \<and> (\<forall>n. fetchHtml env n u = None) \<longrightarrow>
           ob = g) \<and>
        (\<forall>u page. getProp g ''url'' = Some (Str u) \<and> u \<noteq> [] \<and>
           (\<forall>n. fetchHtml env n u = Some page) \<longrightarrow>
           ob = objectAssign g (extractDetailsFromGameHtml page)))
     (fst (enrich env a i n sel st)) sel"
proof (induction sel arbitrary: i st)
  case Nil
  then show ?case by simp
next
  case (Cons game rest)
  obtain r st1 where f: "fetchGameDetails env (getProp game ''url'') 3 st = (r, st1)"
    by (cases "fetchGameDetails env (getProp game ''url'') 3 st")
  show ?case
  proof (cases r)
    case None
    have "\<forall>u page. getProp game ''url'' = Some (Str u) \<and> u \<noteq> [] \<and>
        (\<forall>n. fetchHtml env n u = Some page) \<longrightarrow> False"
      using f None fetchGameDetails_succeeds[of _ env _ st] by (metis fst_conv option.distinct(1))
    then show ?thesis using f None Cons.IH by (auto simp: Let_def)
  next
    case (Some d)
    have a: "\<forall>u. getProp game ''url'' = Some (Str u) \<and> u \<noteq> [] \<and> (\<forall>n. fetchHtml env n u = None)
        \<longrightarrow> False"
      using f Some fetchGameDetails_fails[of _ env 3 st] by (metis fst_conv option.distinct(1))
    have b: "\<forall>u page. getProp game ''url'' = Some (Str u) \<and> u \<noteq> [] \<and>
        (\<forall>n. fetchHtml env n u = Some page) \<longrightarrow> d = extractDetailsFromGameHtml page"
      using f Some fetchGameDetails_succeeds[of _ env _ st] by (metis fst_conv option.inject)
    show ?thesis using f Some Cons.IH a b by (auto simp: Let_def)
  qed
qed

lemma enrich_reports:
  "g \<in> set sel \<Longrightarrow> getProp g ''url'' = Some (Str u) \<Longrightarrow> u \<noteq> [] \<Longrightarrow>
   \<forall>n. fetchHtml env n u = None \<Longrightarrow>
   Reported (ErrorFetchingDetails (getProp g ''title'')) \<in> set (events (snd (enrich env a i n sel st)))"
proof (induction sel arbitrary: i st)
  case Nil
  then show ?case by simp
next
  case (Cons game rest)
  obtain r st1 where f: "fetchGameDetails env (getProp game ''url'') 3 st = (r, st1)"
    by (cases "fetchGameDetails env (getProp game ''url'') 3 st")
  show ?case
  proof (cases "g = game")
    case True
    have r: "r = None"
      using fetchGameDetails_fails[OF Cons.prems(3,4), of 3 st] f Cons.prems(2) True by simp
    have "Reported (ErrorFetchingDetails (getProp g ''title'')) \<in>
        set (events (emit (Reported (ErrorFetchingDetails (getProp game ''title''))) st1))"
      using True by (simp add: emit_events)
    then show ?thesis
      using f r enrich_events[of "emit (Reported (ErrorFetchingDetails (getProp game ''title''))) st1"
          env a "Suc i" n rest]
      by (auto simp: Let_def)
  next
    case False
    then have "g \<in> set rest" using Cons.prems(1) by simp
    then have "Reported (ErrorFetchingDetails (getProp g ''title'')) \<in>
        set (events (snd (enrich env a j n rest st'')))" for j st''
      using Cons.IH Cons.prems by blast
    then show ?thesis using f by (cases r) (auto simp: Let_def)
  qed
qed


lemma detail_keys_absent:
  assumes "map fst g = listingKeys" and "k \<in> set detailKeys"
  shows "getProp g k = None"
proof -
  have "k \<notin> set listingKeys" using assms(2) keys_disjoint by auto
  then have "k \<notin> fst ` set g" using assms(1) by (metis set_map)
  then show ?thesis by (simp add: getProp_def map_of_eq_None_iff)
qed

text \<open>
  Claim C6, amended. Suppose the listing crawl has ended and the detail URL of the
  selected record at position \<open>i\<close> fails at every request. Then the run returns; its
  output has one record per selected record; the record at \<open>i\<close> is the selected record
  unchanged, so that none of the seven detail properties is present on it (absent, not
  null and not zero); the failure is reported on standard error; every other selected
  record whose detail URL is served gets the seven properties of its page; and when the
  file can be written, the process writes the output and exits with status 0.
\<close>

theorem failed_detail_fetch_leaves_record:
  assumes c: "crawl fuel env a START_URL 1 [] initialState = Some (results, st1)"
    and i: "i < length (selectGames a results)"
    and u: "getProp (selectGames a results ! i) ''url'' = Some (Str u)"
    and ne: "u \<noteq> []"
    and f: "\<forall>n. fetchHtml env n u = None"
  shows "\<exists>outp st.
      scrapeAll fuel env a = Some (outp, st) \<and>
      length outp = length (selectGames a results) \<and>
      outp ! i = selectGames a results ! i \<and>
      (\<forall>k\<in>set detailKeys. getProp (outp ! i) k = None) \<and>
      Reported (ErrorFetchingDetails (getProp (selectGames a results ! i) ''title'')) \<in> set (events st) \<and>
      (\<forall>j<length outp. \<forall>u' page.
         getProp (selectGames a results ! j) ''url'' = Some (Str u') \<and> u' \<noteq> [] \<and>
         (\<forall>n. fetchHtml env n u' = Some page) \<longrightarrow>
         outp ! j = selectGames a results ! j @ extractDetailsFromGameHtml page) \<and>
      (a = parseArgs argv \<and> writeFileSync env (out a) outp \<longrightarrow>
         (\<exists>r. main fuel env argv = Some r \<and> exitStatus r = 0 \<and> written r = Some (out a, outp)))"
proof -
  let ?sel = "selectGames a results"
  let ?e = "enrich env a 0 (length ?sel) ?sel st1"
  have s: "scrapeAll fuel env a = Some (fst ?e, snd ?e)"
    unfolding scrapeAll_def c by (simp add: Let_def)
  have sk: "\<forall>g\<in>set ?sel. map fst g = listingKeys"
    using crawl_keys[OF c] selectGames_subset by fastforce
  note rel = enrich_by_url[of env a 0 "length ?sel" ?sel st1]
  have len: "length (fst ?e) = length ?sel"
    using rel by (rule list_all2_lengthD)
  have same: "fst ?e ! i = ?sel ! i"
    using list_all2_nthD2[OF rel i] u ne f by blast
  have absent: "\<forall>k\<in>set detailKeys. getProp (fst ?e ! i) k = None"
    using detail_keys_absent sk i by (simp add: same)
  have rep: "Reported (ErrorFetchingDetails (getProp (?sel ! i) ''title'')) \<in> set (events (snd ?e))"
    using enrich_reports[OF nth_mem[OF i] u ne f] .
  have others: "\<forall>j<length (fst ?e). \<forall>u' page.
         getProp (?sel ! j) ''url'' = Some (Str u') \<and> u' \<noteq> [] \<and>
         (\<forall>n. fetchHtml env n u' = Some page) \<longrightarrow>
         fst ?e ! j = ?sel ! j @ extractDetailsFromGameHtml page"
  proof (intro allI impI)
    fix j u' page
    assume j: "j < length (fst ?e)"
      and h: "getProp (?sel ! j) ''url'' = Some (Str u') \<and> u' \<noteq> [] \<and>
         (\<forall>n. fetchHtml env n u' = Some page)"
    have j': "j < length ?sel" using j len by simp
    have "fst ?e ! j = objectAssign (?sel ! j) (extractDetailsFromGameHtml page)"
      using list_all2_nthD2[OF rel j'] h by blast
    moreover have "map fst (?sel ! j) = listingKeys" using sk j' by simp
    ultimately show "fst ?e ! j = ?sel ! j @ extractDetailsFromGameHtml page"
      using merge_details extractDetails_keys by simp
  qed
  have m: "a = parseArgs argv \<and> writeFileSync env (out a) (fst ?e) \<longrightarrow>
         (\<exists>r. main fuel env argv = Some r \<and> exitStatus r = 0 \<and> written r = Some (out a, fst ?e))"
    using s by (auto simp: main_def Let_def case_prod_beta)
  show ?thesis using s len same absent rep others m by blast
qed

lemma example_urls:
  "getProp exGame ''url'' = Some (Str exUrl1)" "getProp exGame2 ''url'' = Some (Str exUrl2)"
  "exUrl1 \<noteq> []" "exUrl2 \<noteq> []"
  "\<forall>n. fetchHtml exEnv n exUrl1 = None" "\<forall>n. fetchHtml exEnv n exUrl2 = Some bothPage"
  by (simp_all add: exGame_def exGame2_def getProp_def exUrl1_def exUrl2_def exEnv_def
      START_URL_def js_def)

lemma example_details:
  "extractDetailsFromGameHtml bothPage =
     detailsObject (Some (Fin 1)) (Some (Fin 5)) None None None None None"
  by (simp add: extractDetailsFromGameHtml_def bothPage_def example_primaryDetails)

text \<open>Claim C6, amended, on the example run: the detail page of the first record
  never arrives, the second record is enriched, and the process exits with status 0.\<close>

theorem failed_detail_fetch_leaves_record_witness:
  "\<exists>outp st.
     scrapeAll 1 exEnv (parseArgs exArgv) = Some (outp, st) \<and>
     length outp = 2 \<and>
     outp ! 0 = exGame \<and>
     getProp (outp ! 0) ''weight'' = None \<and>
     Reported (ErrorFetchingDetails (Some (Str (js ''Brass: Birmingham'')))) \<in> set (events st) \<and>
     outp ! 1 = exGame2 @ detailsObject (Some (Fin 1)) (Some (Fin 5)) None None None None None \<and>
     map_option exitStatus (main 1 exEnv exArgv) = Some 0"
proof -
  have i: "0 < length (selectGames (parseArgs exArgv) [exGame, exGame2])"
    by (simp add: selectGames_example)
  have u: "getProp (selectGames (parseArgs exArgv) [exGame, exGame2] ! 0) ''url'' = Some (Str exUrl1)"
    by (simp add: selectGames_example example_urls)
  from failed_detail_fetch_leaves_record[OF crawl_example i u example_urls(3) example_urls(5),
      of exArgv]
  obtain outp st where
    s: "scrapeAll 1 exEnv (parseArgs exArgv) = Some (outp, st)"
    and l: "length outp = length (selectGames (parseArgs exArgv) [exGame, exGame2])"
    and z: "outp ! 0 = selectGames (parseArgs exArgv) [exGame, exGame2] ! 0"
    and k: "\<forall>k\<in>set detailKeys. getProp (outp ! 0) k = None"
    and r: "Reported (ErrorFetchingDetails
        (getProp (selectGames (parseArgs exArgv) [exGame, exGame2] ! 0) ''title'')) \<in> set (events st)"
    and o: "\<forall>j<length outp. \<forall>u' page.
         getProp (selectGames (parseArgs exArgv) [exGame, exGame2] ! j) ''url'' = Some (Str u') \<and>
         u' \<noteq> [] \<and> (\<forall>n. fetchHtml exEnv n u' = Some page) \<longrightarrow>
         outp ! j = selectGames (parseArgs exArgv) [exGame, exGame2] ! j @
           extractDetailsFromGameHtml page"
    and m: "parseArgs exArgv = parseArgs exArgv \<and>
         writeFileSync exEnv (out (parseArgs exArgv)) outp \<longrightarrow>
         (\<exists>r. main 1 exEnv exArgv = Some r \<and> exitStatus r = 0 \<and>
            written r = Some (out (parseArgs exArgv), outp))"
    by blast
  have l2: "length outp = 2" using l by (simp add: selectGames_example)
  have z2: "outp ! 0 = exGame" using z by (simp add: selectGames_example)
  have w: "getProp (outp ! 0) ''weight'' = None" using k by (simp add: detailKeys_def)
  have r2: "Reported (ErrorFetchingDetails (Some (Str (js ''Brass: Birmingham'')))) \<in> set (events st)"
    using r unfolding selectGames_example by (simp add: exGame_def getProp_def)
  have "outp ! 1 = selectGames (parseArgs exArgv) [exGame, exGame2] ! 1 @
           extractDetailsFromGameHtml bothPage"
    using o[rule_format, of 1 exUrl2 bothPage] l2 example_urls
    by (simp add: selectGames_example)
  then have o2: "outp ! 1 = exGame2 @ detailsObject (Some (Fin 1)) (Some (Fin 5)) None None None None None"
    by (simp add: selectGames_example example_details)
  have wr: "writeFileSync exEnv (out (parseArgs exArgv)) outp"
    by (simp add: exEnv_def)
  have m2: "map_option exitStatus (main 1 exEnv exArgv) = Some 0"
    using m wr by auto
  show ?thesis using s l2 z2 w r2 o2 m2 by blast
qed


lemma exGame2_keys: "map fst exGame2 = listingKeys"
  by (simp add: exGame2_def listingKeys_def)

lemma scrapeAll_example_output:
  "map_option fst (scrapeAll 1 exEnv (parseArgs exArgv)) =
     Some [exGame, exGame2 @ detailsObject (Some (Fin 1)) (Some (Fin 5)) None None None None None]"
  supply enrich.simps [simp del]
proof -
  let ?e = "enrich exEnv (parseArgs exArgv) 0 (length [exGame, exGame2]) [exGame, exGame2]
       \<lparr>requests = 1, events = [Requested START_URL, Printed (ScrapedPage 1 2 2)]\<rparr>"
  note rel = enrich_by_url[of exEnv "parseArgs exArgv" 0 "length [exGame, exGame2]"
      "[exGame, exGame2]" "\<lparr>requests = 1, events = [Requested START_URL, Printed (ScrapedPage 1 2 2)]\<rparr>"]
  have l: "length (fst ?e) = 2" using list_all2_lengthD[OF rel] by simp
  have a: "fst ?e ! 0 = exGame"
    using list_all2_nthD2[OF rel, of 0] example_urls by auto
  have "fst ?e ! 1 = objectAssign exGame2 (extractDetailsFromGameHtml bothPage)"
    using list_all2_nthD2[OF rel, of 1] example_urls by auto
  moreover have "objectAssign exGame2 (extractDetailsFromGameHtml bothPage) =
      exGame2 @ detailsObject (Some (Fin 1)) (Some (Fin 5)) None None None None None"
    using merge_details[OF exGame2_keys extractDetails_keys, of bothPage]
    by (simp only: example_details)
  ultimately have b: "fst ?e ! 1 =
      exGame2 @ detailsObject (Some (Fin 1)) (Some (Fin 5)) None None None None None"
    by (simp only:)
  have "fst ?e = [exGame, exGame2 @ detailsObject (Some (Fin 1)) (Some (Fin 5)) None None None None None]"
  proof (rule nth_equalityI)
    show "length (fst ?e) =
        length [exGame, exGame2 @ detailsObject (Some (Fin 1)) (Some (Fin 5)) None None None None None]"
      using l by simp
  next
    fix i assume "i < length (fst ?e)"
    then have "i = 0 \<or> i = 1" using l by auto
    then show "fst ?e ! i =
        [exGame, exGame2 @ detailsObject (Some (Fin 1)) (Some (Fin 5)) None None None None None] ! i"
      using a b by auto
  qed
  then show ?thesis unfolding scrapeAll_example by simp
qed

text \<open>
  Claim C6 as stated fails. In the example run every request for the detail page of
  the first record fails. That record leaves the run without the detail properties:
  reading \<^verbatim>\<open>weight\<close> or \<^verbatim>\<open>min_players\<close> on it gives \<^verbatim>\<open>undefined\<close> (\<open>None\<close>), where the
  enriched second record holds an explicit null for \<^verbatim>\<open>weight\<close>.
\<close>

theorem failed_fetch_fields_absent_counterexample:
  "fetchHtml exEnv 1 exUrl1 = None \<and> fetchHtml exEnv 2 exUrl1 = None \<and>
   fetchHtml exEnv 3 exUrl1 = None \<and>
   map_option (map (\<lambda>g. getProp g ''weight'') \<circ> fst) (scrapeAll 1 exEnv (parseArgs exArgv)) =
     Some [None, Some Null] \<and>
   map_option (map (\<lambda>g. getProp g ''min_players'') \<circ> fst) (scrapeAll 1 exEnv (parseArgs exArgv)) =
     Some [None, Some (Num (Fin 1))]"
proof -
  obtain outp st where s: "scrapeAll 1 exEnv (parseArgs exArgv) = Some (outp, st)"
    using scrapeAll_example by (metis surj_pair)
  have o: "outp = [exGame, exGame2 @ detailsObject (Some (Fin 1)) (Some (Fin 5)) None None None None None]"
    using scrapeAll_example_output unfolding s by simp
  have g: "getProp exGame ''weight'' = None" "getProp exGame ''min_players'' = None"
    "getProp (exGame2 @ detailsObject (Some (Fin 1)) (Some (Fin 5)) None None None None None) ''weight'' = Some Null"
    "getProp (exGame2 @ detailsObject (Some (Fin 1)) (Some (Fin 5)) None None None None None) ''min_players'' = Some (Num (Fin 1))"
    by (simp_all add: exGame_def exGame2_def detailsObject_def getProp_def numOrNull_def)
  show ?thesis unfolding s using example_urls(5) by (simp add: o g)
qed

lemma sliceTo_Nil: "sliceTo t [] = []"
  by (simp add: sliceTo_def split: jsnum.splits)

lemma crawl_start_failure:
  assumes "fetchHtml env 0 START_URL = None"
  shows "crawl (Suc fuel) env a START_URL 1 [] initialState =
     Some ([], \<lparr>requests = 1, events = [Requested START_URL, Reported (ErrorScraping START_URL)]\<rparr>)"
  using assms by (simp add: START_URL_nonempty request_def initialState_def emit_def)

lemma main_start_failure:
  assumes "fetchHtml env 0 START_URL = None"
  shows "main (Suc fuel) env argv =
     (if writeFileSync env (out (parseArgs argv)) [] then
        Some \<lparr>exitStatus = 0, written = Some (out (parseArgs argv), []),
              trace = [Requested START_URL, Reported (ErrorScraping START_URL),
                       Printed (Wrote 0 (out (parseArgs argv))), Printed OpenIndexHint]\<rparr>
      else Some \<lparr>exitStatus = 1, written = None,
              trace = [Requested START_URL, Reported (ErrorScraping START_URL)]\<rparr>)"
  unfolding main_def scrapeAll_def crawl_start_failure[OF assms]
  by (simp add: selectGames_def sliceTo_Nil Let_def)

text \<open>
  Claim C5 as stated fails. When every request fails, so that the first listing page
  cannot be fetched, the run reports the error, then writes the output file with an
  empty array and ends with exit status 0.
\<close>

theorem start_failure_counterexample:
  "fetchHtml downEnv 0 START_URL = None \<and>
   main 1 downEnv exArgv =
     Some \<lparr>exitStatus = 0, written = Some (js ''boardgames.json'', []),
           trace = [Requested START_URL, Reported (ErrorScraping START_URL),
                    Printed (Wrote 0 (js ''boardgames.json'')), Printed OpenIndexHint]\<rparr>"
proof -
  have f: "fetchHtml downEnv 0 START_URL = None" by (simp add: downEnv_def)
  have w: "writeFileSync downEnv (out (parseArgs exArgv)) []" by (simp add: downEnv_def)
  show ?thesis using main_start_failure[OF f, of 0 exArgv] w f by (simp add: exArgs_fields)
qed

text \<open>
  Claim C5, amended. If fetching the very first listing page fails, the run terminates
  after one request with the error reported on standard error, and still writes the
  output artifact, an empty array: the exit status is 0 when the file is written. In
  every run that ends, the exit status is non-zero exactly when writing the output
  file failed, so that no artifact was produced.
\<close>

theorem start_failure_writes_empty_output:
  "(fetchHtml env 0 START_URL = None \<longrightarrow>
      (\<exists>r. main (Suc fuel) env argv = Some r \<and>
         Reported (ErrorScraping START_URL) \<in> set (trace r) \<and>
         (writeFileSync env (out (parseArgs argv)) [] \<longrightarrow>
            exitStatus r = 0 \<and> written r = Some (out (parseArgs argv), [])) \<and>
         (\<not> writeFileSync env (out (parseArgs argv)) [] \<longrightarrow>
            exitStatus r = 1 \<and> written r = None))) \<and>
   (main fuel' env' argv' = Some r' \<longrightarrow> (exitStatus r' \<noteq> 0 \<longleftrightarrow> written r' = None))"
proof -
  have a: "\<exists>r. main (Suc fuel) env argv = Some r \<and>
         Reported (ErrorScraping START_URL) \<in> set (trace r) \<and>
         (writeFileSync env (out (parseArgs argv)) [] \<longrightarrow>
            exitStatus r = 0 \<and> written r = Some (out (parseArgs argv), [])) \<and>
         (\<not> writeFileSync env (out (parseArgs argv)) [] \<longrightarrow>
            exitStatus r = 1 \<and> written r = None)"
    if f: "fetchHtml env 0 START_URL = None"
    using main_start_failure[OF f, of fuel argv] by auto
  have b: "exitStatus r' \<noteq> 0 \<longleftrightarrow> written r' = None" if m: "main fuel' env' argv' = Some r'"
    using m by (auto simp: main_def Let_def split: option.splits if_splits)
  show ?thesis using a b by blast
qed

text \<open>Claim C5, amended, on a network where every request fails.\<close>

theorem start_failure_writes_empty_output_witness:
  "map_option exitStatus (main 1 downEnv exArgv) = Some 0 \<and>
   map_option written (main 1 downEnv exArgv) = Some (Some (js ''boardgames.json'', [])) \<and>
   (\<exists>r. main 1 downEnv exArgv = Some r \<and> Reported (ErrorScraping START_URL) \<in> set (trace r))"
proof -
  have f: "fetchHtml downEnv 0 START_URL = None" by (simp add: downEnv_def)
  have w: "writeFileSync downEnv (out (parseArgs exArgv)) []" by (simp add: downEnv_def)
  from start_failure_writes_empty_output[of downEnv 0 exArgv, THEN conjunct1] f w
  obtain r where r: "main (Suc 0) downEnv exArgv = Some r"
    "Reported (ErrorScraping START_URL) \<in> set (trace r)"
    "exitStatus r = 0" "written r = Some (out (parseArgs exArgv), [])"
    by blast
  show ?thesis using r by (simp add: exArgs_fields)
qed

lemma extractRow_exRowSameRank:
  "extractRow exResolve exRowSameRank = Some (Some ((''rank'', Num (Fin 1)) # tl exGame2))"
  by (simp add: exRowSameRank_def exRow2_def exRow_def exResolve_def exGame2_def row_eval)

text \<open>
  Claim C2 fails on the code for two records of one page. On a listing page whose two
  rows both carry rank 1, the set of known ranks is computed before the records of the
  page are appended, so both records are accumulated.
\<close>

theorem same_page_duplicate_rank_kept:
  "map_option (map (\<lambda>g. (getProp g ''rank'', getProp g ''title'')) \<circ> fst)
     (crawl 1 sameRankEnv (parseArgs exArgv) START_URL 1 [] initialState) =
   Some [(Some (Num (Fin 1)), Some (Str (js ''Brass: Birmingham''))),
         (Some (Num (Fin 1)), Some (Str (js ''Ark Nova'')))]"
proof -
  have rows: "extractGamesFromHtml exResolve sameRankPage =
      Some [exGame, (''rank'', Num (Fin 1)) # tl exGame2]"
    by (simp add: extractGamesFromHtml_def sameRankPage_def extractRow_exRow extractRow_exRowSameRank)
  have nxt: "getNextPageUrl exResolve sameRankPage = Some None"
    by (simp add: getNextPageUrl_def sameRankPage_def)
  have f: "fetchHtml sameRankEnv 0 START_URL = Some sameRankPage" "resolveUrl sameRankEnv = exResolve"
    by (simp_all add: sameRankEnv_def)
  have one: "(1::nat) = Suc 0" by simp
  have c: "crawl (Suc 0) sameRankEnv (parseArgs exArgv) START_URL (Suc 0) [] initialState =
      Some ([exGame, (''rank'', Num (Fin 1)) # tl exGame2],
        \<lparr>requests = 1, events = [Requested START_URL, Printed (ScrapedPage 1 2 2)]\<rparr>)"
    by (simp add: START_URL_nonempty request_def initialState_def f rows nxt emit_def
        targetCount_exArgs jsLe_def jsLess_def exArgs_fields Let_def)
  show ?thesis unfolding one c by (simp add: exGame_def exGame2_def getProp_def)
qed


text \<open>Across pages the filter does its work: when no single page repeats a rank,
  the accumulated records have pairwise different ranks.\<close>

lemma crawl_distinct_ranks:
  assumes "crawl fuel env a url page results st = Some (res, st')"
    and "distinct (map (\<lambda>g. getProp g ''rank'') results)"
    and "\<And>n u doc gs. fetchHtml env n u = Some doc \<Longrightarrow>
           extractGamesFromHtml (resolveUrl env) doc = Some gs \<Longrightarrow>
           distinct (map (\<lambda>g. getProp g ''rank'') gs)"
  shows "distinct (map (\<lambda>g. getProp g ''rank'') res)"
  using assms(1,2)
proof (induction fuel arbitrary: url page results st)
  case 0
  then show ?case by simp
next
  case (Suc fuel)
  show ?case
  proof (cases "url = []")
    case True
    with Suc.prems show ?thesis by simp
  next
    case False
    show ?thesis
    proof (cases "fetchHtml env (requests st) url")
      case None
      with False Suc.prems show ?thesis by (simp add: request_def)
    next
      case (Some doc)
      show ?thesis
      proof (cases "extractGamesFromHtml (resolveUrl env) doc")
        case None
        with False Some Suc.prems show ?thesis by (simp add: request_def)
      next
        case g: (Some pageGames)
        let ?rank = "\<lambda>g. getProp g ''rank''"
        let ?results' = "results @ filter (\<lambda>g. ?rank g \<notin> set (map ?rank results)) pageGames"
        have pd: "distinct (map ?rank pageGames)" using assms(3)[OF Some g] .
        have rd: "distinct (map ?rank ?results')"
          using pd Suc.prems(2) by (auto simp: distinct_map_filter) (metis imageI)
        from Suc.prems(1) False Some g
        consider (stop) "res = ?results'"
          | (rec) nextUrl st2 where "crawl fuel env a nextUrl (Suc page) ?results' st2 = Some (res, st')"
          by (auto simp: request_def Let_def split: if_splits option.splits)
        then show ?thesis
        proof cases
          case stop
          then show ?thesis using rd by simp
        next
          case rec
          then show ?thesis using Suc.IH rd by blast
        qed
      qed
    qed
  qed
qed

end
